theory Spec2Isabelle
  imports Main "HOL-Library.Word"
begin

section \<open>JavaScript strings and values\<close>

text \<open>
  A JavaScript string is a sequence of UTF-16 code units. Literals of the source that are
  plain ASCII are written with \<open>ascii\<close>; the others are spelled out as code units, as
  the source files have them.
\<close>

type_synonym jsstring = "16 word list"

definition ascii :: "string \<Rightarrow> jsstring" where
  "ascii s = map of_char s"

text \<open>\<^verbatim>\<open>s.startsWith(p)\<close>, used to define the search below.\<close>

fun startsWith :: "jsstring \<Rightarrow> jsstring \<Rightarrow> bool" where
  "startsWith s [] = True"
| "startsWith [] (p # ps) = False"
| "startsWith (c # cs) (p # ps) = (c = p \<and> startsWith cs ps)"

text \<open>\<^verbatim>\<open>s.includes(p)\<close>: some position of \<open>s\<close> starts an occurrence of \<open>p\<close>.\<close>

fun includes_str :: "jsstring \<Rightarrow> jsstring \<Rightarrow> bool" where
  "includes_str [] p = (p = [])"
| "includes_str (c # cs) p = (startsWith (c # cs) p \<or> includes_str cs p)"

text \<open>
  \<^verbatim>\<open>s.replace(p, r)\<close> with a string pattern \<open>p\<close>: only the first (leftmost) occurrence
  is replaced. The replacement is taken literally, which is what JavaScript does for a
  replacement without \<^verbatim>\<open>$\<close>, such as the empty string the source passes.
\<close>

fun replace :: "jsstring \<Rightarrow> jsstring \<Rightarrow> jsstring \<Rightarrow> jsstring" where
  "replace [] p r = (if p = [] then r else [])"
| "replace (c # cs) p r =
     (if startsWith (c # cs) p then r @ drop (length p) (c # cs)
      else c # replace cs p r)"

text \<open>The code units that \<^verbatim>\<open>trim\<close> removes: ECMAScript white space and line terminators.\<close>

definition isWhiteSpace :: "16 word \<Rightarrow> bool" where
  "isWhiteSpace c \<longleftrightarrow>
     c \<in> {0x09, 0x0A, 0x0B, 0x0C, 0x0D, 0x20, 0xA0, 0x1680, 0x2028, 0x2029, 0x202F,
          0x205F, 0x3000, 0xFEFF}
     \<or> (0x2000 \<le> c \<and> c \<le> 0x200A)"

definition trim :: "jsstring \<Rightarrow> jsstring" where
  "trim s = rev (dropWhile isWhiteSpace (rev (dropWhile isWhiteSpace s)))"

text \<open>\<^verbatim>\<open>s.substring(0, n)\<close> is \<open>take n s\<close>.\<close>

text \<open>
  \<^verbatim>\<open>Date.now()\<close> is a count of milliseconds, a natural number far below \<open>10^21\<close>, where
  \<^verbatim>\<open>toString()\<close> prints plain decimal digits.
\<close>

definition digit :: "nat \<Rightarrow> 16 word" where
  "digit d = of_nat (48 + d)"

fun toString :: "nat \<Rightarrow> jsstring" where
  "toString n = (if n < 10 then [digit n] else toString (n div 10) @ [digit (n mod 10)])"

declare toString.simps [simp del]

text \<open>Truthiness of an optional string (\<^verbatim>\<open>undefined\<close> and \<^verbatim>\<open>''\<close> are falsy) and of an optional flag.\<close>

fun truthyStr :: "jsstring option \<Rightarrow> bool" where
  "truthyStr None = False"
| "truthyStr (Some s) = (s \<noteq> [])"

fun truthyFlag :: "bool option \<Rightarrow> bool" where
  "truthyFlag None = False"
| "truthyFlag (Some b) = b"

text \<open>\<^verbatim>\<open>x || d\<close> on an optional string.\<close>

fun orElse :: "jsstring option \<Rightarrow> jsstring \<Rightarrow> jsstring" where
  "orElse None d = d"
| "orElse (Some s) d = (if s = [] then d else s)"

text \<open>
  What can be thrown: a collaborator's promise rejects (network, quota), the code throws
  an \<^verbatim>\<open>Error\<close> with a message, or reading a property of \<^verbatim>\<open>null\<close> or calling what is
  not a function raises a \<^verbatim>\<open>TypeError\<close>.
\<close>

datatype error = ApiFailure | Error jsstring | TypeError

section \<open>Data model (types.ts)\<close>

datatype whoSawFirst = USER | CHARACTER | BOTH

record encounterConfig =
  environment :: jsstring
  whoSawFirst :: whoSawFirst

datatype dietType = HERBIVORE | CARNIVORE

record humanPreferences =
  ageGroup :: jsstring
  bodyType :: jsstring
  tastePreference :: jsstring

record dietConfig =
  d_type :: dietType
  d_details :: jsstring
  d_eatsHumans :: bool
  d_humanPreferences :: "humanPreferences option"

record character =
  c_id :: jsstring
  c_name :: jsstring
  c_description :: jsstring
  c_baseImage :: jsstring
  c_systemInstruction :: jsstring
  c_height :: "jsstring option"
  c_weight :: "jsstring option"
  c_powers :: "jsstring option"
  c_age :: "jsstring option"
  c_lifeExpectancy :: "jsstring option"
  c_diet :: "dietConfig option"
  c_encounter :: "encounterConfig option"
  c_questionAnswers :: "(jsstring \<times> jsstring) list option"

record userPersona =
  u_name :: jsstring
  u_appearance :: jsstring
  u_baseImage :: "jsstring option"
  u_height :: jsstring
  u_weight :: jsstring
  u_age :: jsstring

datatype role = user | model

record message =
  m_id :: jsstring
  m_role :: role
  m_text :: jsstring
  m_timestamp :: nat
  m_isDeath :: "bool option"
  m_generatedImage :: "jsstring option"

record chatSession =
  s_id :: jsstring
  s_character :: character
  s_userPersona :: "userPersona option"
  s_messages :: "message list"
  s_lastUpdated :: nat
  s_previewText :: "jsstring option"

datatype viewMode = WELCOME | SETUP | USER_SETUP | CHAT | MEDIA

section \<open>Collaborator calls (services/geminiService.ts)\<close>

text \<open>
  The generative-AI backend is external: each call either fails (\<open>Inl\<close>) or returns a
  response. Of a response the code reads \<^verbatim>\<open>text\<close> and the parts of the first candidate
  (\<^verbatim>\<open>candidates?.[0]?.content?.parts\<close>); of a part, whether it has \<^verbatim>\<open>inlineData\<close> and
  that blob's \<^verbatim>\<open>data\<close>. The prompts sent to the backend have no effect on what the code
  does with the answer and are left out.
\<close>

type_synonym part = "jsstring option"

record genResponse =
  r_text :: "jsstring option"
  r_candidates :: "part list option list option"

text \<open>\<^verbatim>\<open>response.candidates?.[0]?.content?.parts || []\<close>\<close>

definition responseParts :: "genResponse \<Rightarrow> part list" where
  "responseParts r =
     (case r_candidates r of
        None \<Rightarrow> []
      | Some [] \<Rightarrow> []
      | Some (c # cs) \<Rightarrow> (case c of None \<Rightarrow> [] | Some ps \<Rightarrow> ps))"

text \<open>The loop \<^verbatim>\<open>for (const part of parts) { if (part.inlineData) return part.inlineData.data; }\<close>\<close>

fun firstInlineData :: "part list \<Rightarrow> jsstring option" where
  "firstInlineData [] = None"
| "firstInlineData (p # ps) = (case p of Some d \<Rightarrow> Some d | None \<Rightarrow> firstInlineData ps)"

definition chatWithCharacter :: "error + genResponse \<Rightarrow> error + jsstring" where
  "chatWithCharacter resp =
     (case resp of Inl e \<Rightarrow> Inl e | Inr r \<Rightarrow> Inr (orElse (r_text r) []))"

text \<open>
  The object the time-skip answer is read as. The code reads six properties of it; a
  property the document does not have reads as \<^verbatim>\<open>undefined\<close>, here \<open>None\<close>. A property
  that is present is taken to hold a string, the type the response schema declares.
\<close>

record timeSkipUpdates =
  newWeight :: "jsstring option"
  newHeight :: "jsstring option"
  newAge :: "jsstring option"
  stats :: "jsstring option"
  summary :: "jsstring option"
  visualEvolutionPrompt :: "jsstring option"

text \<open>
  What \<^verbatim>\<open>JSON.parse\<close> gives on a document: it throws a \<^verbatim>\<open>SyntaxError\<close> (\<open>Malformed\<close>),
  it returns \<^verbatim>\<open>null\<close>, or it returns another value, seen through the properties the
  code reads of it (the document \<^verbatim>\<open>{}\<close>, and any value that is not an object, has none
  of them). \<^verbatim>\<open>JSON.parse\<close> itself is a parameter.
\<close>

datatype 'a json = Malformed | Null | Value 'a

text \<open>\<open>Inr None\<close> is the promise resolving to \<^verbatim>\<open>null\<close>.\<close>

definition processTimeSkip ::
  "character \<Rightarrow> jsstring \<Rightarrow> (jsstring \<Rightarrow> timeSkipUpdates json) \<Rightarrow> error + genResponse
     \<Rightarrow> error + timeSkipUpdates option" where
  "processTimeSkip character duration parse resp =
     (case resp of
        Inl e \<Rightarrow> Inl e
      | Inr r \<Rightarrow>
          (case parse (orElse (r_text r) (ascii ''{}'')) of
             Value u \<Rightarrow> Inr (Some u)
           | Null \<Rightarrow> Inr None
           | Malformed \<Rightarrow>
               Inr (Some
                 \<lparr> newWeight = Some (orElse (c_weight character) (ascii ''?'')),
                   newHeight = Some (orElse (c_height character) (ascii ''?'')),
                   newAge = Some (orElse (c_age character) (ascii ''?'')),
                   stats = Some (ascii ''Sobreviveu.''),
                   summary = Some (ascii ''Passaram-se '' @ duration
                     @ ascii ''. O personagem continuou sua exist'' @ [0x00EA] @ ascii ''ncia.''),
                   visualEvolutionPrompt = Some (ascii ''older, different appearance'') \<rparr>)))"

definition evolveCharacterVisuals :: "jsstring \<Rightarrow> jsstring \<Rightarrow> error + genResponse \<Rightarrow> error + jsstring" where
  "evolveCharacterVisuals base64Image evolutionDescription resp =
     (case resp of
        Inl e \<Rightarrow> Inl e
      | Inr r \<Rightarrow>
          (case firstInlineData (responseParts r) of
             Some d \<Rightarrow> Inr d
           | None \<Rightarrow> Inr base64Image))"

definition editCharacterImage :: "jsstring \<Rightarrow> jsstring \<Rightarrow> error + genResponse \<Rightarrow> error + jsstring" where
  "editCharacterImage base64Image prompt resp =
     (case resp of
        Inl e \<Rightarrow> Inl e
      | Inr r \<Rightarrow>
          (case firstInlineData (responseParts r) of
             Some d \<Rightarrow> Inr d
           | None \<Rightarrow> Inl (Error (ascii ''Nenhuma imagem gerada.''))))"

definition generateActionScene :: "error + genResponse \<Rightarrow> error + jsstring" where
  "generateActionScene resp =
     (case resp of
        Inl e \<Rightarrow> Inl e
      | Inr r \<Rightarrow>
          (case firstInlineData (responseParts r) of
             Some d \<Rightarrow> Inr d
           | None \<Rightarrow> Inl (Error (ascii ''Falha ao gerar imagem da cena.''))))"

section \<open>The chat component (components/ChatArea.tsx)\<close>

text \<open>
  The handlers of the component are asynchronous: each runs up to an \<^verbatim>\<open>await\<close>, the
  component renders and takes other events, and the handler goes on when the awaited
  promise settles. A handler is therefore modelled in segments, one per stretch between
  awaits; a segment returns the state it leaves and the await it stops at, if any.
  An await carries what the rest of the handler has closed over: the values of state
  variables at the render in which the handler was called.
\<close>

datatype pendingOp =
    AwaitChat bool
  | AwaitSpeak
  | AwaitTimeSkip character jsstring
  | AwaitEvolve character jsstring timeSkipUpdates
  | AwaitScene jsstring
  | AwaitUserMedia
  | AwaitBlob
  | AwaitTranscribe

text \<open>
  The component's state hooks, one field each; \<open>audioContextRef\<close> and
  \<open>mediaRecorderRef\<close> for whether the ref holds an object; and \<open>pending\<close>, the
  handlers that are suspended at an await. What the component does to the outside is
  recorded in four logs: the \<^verbatim>\<open>alert\<close> calls, the texts handed to \<^verbatim>\<open>speakText\<close>, the
  (history, message) pairs handed to \<^verbatim>\<open>chatWithCharacter\<close>, and the \<^verbatim>\<open>onSessionUpdate\<close>
  calls. \<open>depsChanged\<close> records that a setter of \<open>messages\<close>, \<open>activeCharacter\<close> or
  \<open>activeUserPersona\<close> ran since the last render, so that the effect on these
  dependencies runs after it.
\<close>

record chatArea =
  activeCharacter :: character
  activeUserPersona :: "userPersona option"
  messages :: "message list"
  inputText :: jsstring
  isProcessing :: bool
  isRecording :: bool
  autoPlayTTS :: bool
  isDead :: bool
  showTimeSkipInput :: bool
  timeSkipDuration :: jsstring
  isSkippingTime :: bool
  showNewUserForm :: bool
  showActionInput :: bool
  actionPrompt :: jsstring
  isGeneratingScene :: bool
  audioContextRef :: bool
  mediaRecorderRef :: bool
  pending :: "pendingOp list"
  alerts :: "jsstring list"
  speakRequests :: "jsstring list"
  chatRequests :: "((role \<times> jsstring) list \<times> jsstring) list"
  sessionUpdates :: "(message list \<times> character \<times> userPersona option) list"
  depsChanged :: bool

definition setMessages :: "(message list \<Rightarrow> message list) \<Rightarrow> chatArea \<Rightarrow> chatArea" where
  "setMessages f st = st\<lparr>messages := f (messages st), depsChanged := True\<rparr>"

definition setActiveCharacter :: "character \<Rightarrow> chatArea \<Rightarrow> chatArea" where
  "setActiveCharacter c st = st\<lparr>activeCharacter := c, depsChanged := True\<rparr>"

definition setActiveUserPersona :: "userPersona option \<Rightarrow> chatArea \<Rightarrow> chatArea" where
  "setActiveUserPersona u st = st\<lparr>activeUserPersona := u, depsChanged := True\<rparr>"

text \<open>\<^verbatim>\<open>messages[messages.length - 1]?.isDeath\<close>, as a condition.\<close>

definition lastIsDeath :: "message list \<Rightarrow> bool" where
  "lastIsDeath ms = (case ms of [] \<Rightarrow> False | m # rest \<Rightarrow> truthyFlag (m_isDeath (last ms)))"

text \<open>The effect on \<^verbatim>\<open>[messages, activeCharacter, activeUserPersona]\<close> (lines 63 to 71).\<close>

definition sessionEffect :: "chatArea \<Rightarrow> chatArea" where
  "sessionEffect st =
     (let st1 = st\<lparr>sessionUpdates :=
                  sessionUpdates st @ [(messages st, activeCharacter st, activeUserPersona st)]\<rparr>
      in if lastIsDeath (messages st) then st1\<lparr>isDead := True\<rparr> else st1)"

text \<open>A render: the batched updates are in the state; the effect runs if its dependencies changed.\<close>

definition rerender :: "chatArea \<Rightarrow> chatArea" where
  "rerender st = (if depsChanged st then (sessionEffect st)\<lparr>depsChanged := False\<rparr> else st)"

text \<open>Mounting the component with the props of a session: initial state, then both mount effects.\<close>

definition mountChatArea :: "character \<Rightarrow> userPersona option \<Rightarrow> message list \<Rightarrow> chatArea" where
  "mountChatArea initialCharacter initialUserPersona initialMessages =
     (sessionEffect
        \<lparr> activeCharacter = initialCharacter,
          activeUserPersona = initialUserPersona,
          messages = initialMessages,
          inputText = [],
          isProcessing = False,
          isRecording = False,
          autoPlayTTS = True,
          isDead = False,
          showTimeSkipInput = False,
          timeSkipDuration = [],
          isSkippingTime = False,
          showNewUserForm = False,
          showActionInput = False,
          actionPrompt = [],
          isGeneratingScene = False,
          audioContextRef = False,
          mediaRecorderRef = False,
          pending = [],
          alerts = [],
          speakRequests = [],
          chatRequests = [],
          sessionUpdates = [],
          depsChanged = False \<rparr>)\<lparr>audioContextRef := True\<rparr>"

definition deathTag :: jsstring where
  "deathTag = ascii ''[GAME_OVER]''"

subsection \<open>Chat turns\<close>

text \<open>
  What the environment supplies to \<^verbatim>\<open>handleSendMessage\<close>: the readings of \<^verbatim>\<open>Date.now()\<close>
  in the order the code asks for them, and the outcome of the chat call. Each segment
  reads the fields of its own stretch of the code.
\<close>

record sendEnv =
  nowUserId :: nat
  nowUserTimestamp :: nat
  chatResponse :: "error + genResponse"
  nowBotId :: nat
  nowBotTimestamp :: nat
  nowErrTimestamp :: nat

definition errText :: jsstring where
  "errText = ascii ''(Conex'' @ [0x221A, 0x00A3] @ ascii ''o interrompida...)''"

text \<open>
  Lines 84 to 98: up to \<^verbatim>\<open>await chatWithCharacter(...)\<close>. The rest of the handler reads
  \<^verbatim>\<open>autoPlayTTS\<close> as it was at the call.
\<close>

definition handleSendMessage_start :: "sendEnv \<Rightarrow> chatArea \<Rightarrow> chatArea \<times> pendingOp option" where
  "handleSendMessage_start env st =
     (if trim (inputText st) = [] then (st, None)
      else
        let userMsg = \<lparr> m_id = toString (nowUserId env), m_role = user, m_text = inputText st,
                        m_timestamp = nowUserTimestamp env, m_isDeath = None,
                        m_generatedImage = None \<rparr>;
            s1 = rerender
                   ((setMessages (\<lambda>prev. prev @ [userMsg]) st)\<lparr>inputText := [], isProcessing := True\<rparr>);
            history = map (\<lambda>m. (m_role m, m_text m))
                        (filter (\<lambda>m. m_id m \<noteq> ascii ''init'' \<and> \<not> truthyStr (m_generatedImage m)
                                      \<and> \<not> truthyFlag (m_isDeath m))
                           (messages st))
        in (s1\<lparr>chatRequests := chatRequests s1 @ [(history, m_text userMsg)]\<rparr>,
            Some (AwaitChat (autoPlayTTS st))))"

text \<open>
  Lines 98 to 133, from the settled chat call: the reply is scanned for the death tag and
  appended; on a death the handler ends, otherwise it may stop at \<^verbatim>\<open>await speakText(...)\<close>.
  A failed call appends the fixed message of the \<^verbatim>\<open>catch\<close> block.
\<close>

definition handleSendMessage_replied ::
  "bool \<Rightarrow> sendEnv \<Rightarrow> chatArea \<Rightarrow> chatArea \<times> pendingOp option" where
  "handleSendMessage_replied autoPlay env st =
     (case chatWithCharacter (chatResponse env) of
        Inr responseText \<Rightarrow>
          let died = includes_str responseText deathTag;
              cleanText = trim (replace responseText deathTag []);
              botMsg = \<lparr> m_id = toString (nowBotId env + 1), m_role = model, m_text = cleanText,
                         m_timestamp = nowBotTimestamp env, m_isDeath = Some died,
                         m_generatedImage = None \<rparr>;
              s3 = setMessages (\<lambda>prev. prev @ [botMsg]) st
          in if died then (rerender (s3\<lparr>isDead := True, isProcessing := False\<rparr>), None)
             else if autoPlay \<and> audioContextRef st
             then ((rerender s3)\<lparr>speakRequests := speakRequests s3 @ [cleanText]\<rparr>, Some AwaitSpeak)
             else (rerender (s3\<lparr>isProcessing := False\<rparr>), None)
      | Inl e \<Rightarrow>
          (rerender
             ((setMessages
                 (\<lambda>prev. prev @ [\<lparr> m_id = ascii ''err'', m_role = model, m_text = errText,
                                     m_timestamp = nowErrTimestamp env, m_isDeath = None,
                                     m_generatedImage = None \<rparr>])
                 st)\<lparr>isProcessing := False\<rparr>),
           None))"

text \<open>
  After the speech call settled, either way: decoding and playing the audio change
  nothing of the state, and the \<^verbatim>\<open>finally\<close> block runs.
\<close>

definition handleSendMessage_spoken :: "chatArea \<Rightarrow> chatArea \<times> pendingOp option" where
  "handleSendMessage_spoken st = (st\<lparr>isProcessing := False\<rparr>, None)"

text \<open>
  The narrative state of the session, read off the flags the way the component's render
  does: the new-persona overlay shows whenever \<open>showNewUserForm\<close>; otherwise the death
  overlays show when \<open>isDead\<close>, with a time skip pending while \<open>isSkippingTime\<close>.
\<close>

datatype narrativeState = ALIVE | DEAD | TIME_SKIP_PENDING | AWAITING_NEW_PERSONA

definition derivedState :: "chatArea \<Rightarrow> narrativeState" where
  "derivedState st =
     (if showNewUserForm st then AWAITING_NEW_PERSONA
      else if isDead st then (if isSkippingTime st then TIME_SKIP_PENDING else DEAD)
      else ALIVE)"

subsection \<open>Time skip\<close>

record skipEnv =
  nowPlaceholderTimestamp :: nat
  skipResponse :: "error + genResponse"
  skipParse :: "jsstring \<Rightarrow> timeSkipUpdates json"
  imageResponse :: "error + genResponse"
  nowSkipId :: nat
  nowSkipTimestamp :: nat

definition skipCalcId :: jsstring where
  "skipCalcId = ascii ''skip_calc''"

definition placeholderText :: jsstring where
  "placeholderText =
     [0x201A, 0x00E8, 0x2265] @ ascii '' O tempo est'' @ [0x221A, 0x00B0]
     @ ascii '' passando... Calculando consequ'' @ [0x221A, 0x2122] @ ascii ''ncias do per''
     @ [0x221A, 0x2260] @ ascii ''odo...''"

text \<open>A value inside a template literal: \<^verbatim>\<open>undefined\<close> prints as its name.\<close>

fun interpolate :: "jsstring option \<Rightarrow> jsstring" where
  "interpolate None = ascii ''undefined''"
| "interpolate (Some s) = s"

definition skipText :: "jsstring \<Rightarrow> timeSkipUpdates \<Rightarrow> jsstring" where
  "skipText duration updates =
     [0x201A, 0x00E8, 0x221E] @ ascii '' SALTO NO TEMPO CONCLU'' @ [0x221A, 0x00E7] @ ascii ''DO: ''
     @ duration
     @ ascii ''.'' @ [0x000A, 0x000A, 0xF8FF, 0x00FC, 0x00EC, 0x00FA] @ ascii '' DI'' @ [0x221A, 0x00C5]
     @ ascii ''RIO DE ATIVIDADES:'' @ [0x000A]
     @ interpolate (summary updates)
     @ [0x000A, 0x000A, 0xF8FF, 0x00FC, 0x00EC, 0x00E4] @ ascii '' Estat'' @ [0x221A, 0x2260]
     @ ascii ''sticas:'' @ [0x000A]
     @ interpolate (stats updates)
     @ [0x000A, 0x000A] @ ascii ''Status Atual: Peso ''
     @ interpolate (newWeight updates)
     @ ascii '' | Altura ''
     @ interpolate (newHeight updates)
     @ ascii '' | Idade ''
     @ interpolate (newAge updates)"

text \<open>
  Lines 137 to 148: up to \<^verbatim>\<open>await processTimeSkip(activeCharacter, timeSkipDuration)\<close>.
\<close>

definition handleTimeSkip_start :: "skipEnv \<Rightarrow> chatArea \<Rightarrow> chatArea \<times> pendingOp option" where
  "handleTimeSkip_start env st =
     (if timeSkipDuration st = [] then (st, None)
      else
        (rerender
           (setMessages
              (\<lambda>prev. prev @ [\<lparr> m_id = skipCalcId, m_role = model, m_text = placeholderText,
                                  m_timestamp = nowPlaceholderTimestamp env, m_isDeath = None,
                                  m_generatedImage = None \<rparr>])
              (st\<lparr>isSkippingTime := True\<rparr>)),
         Some (AwaitTimeSkip (activeCharacter st) (timeSkipDuration st))))"

text \<open>
  Lines 159 to 177 and the \<^verbatim>\<open>finally\<close> block: the end of a time skip that went through,
  with the character and duration the handler closed over and the image it settled on.
\<close>

definition handleTimeSkip_done ::
  "character \<Rightarrow> jsstring \<Rightarrow> timeSkipUpdates \<Rightarrow> jsstring \<Rightarrow> skipEnv \<Rightarrow> chatArea \<Rightarrow> chatArea" where
  "handleTimeSkip_done character duration updates newImage env st =
     (let newCharacter = character
            \<lparr> c_weight := newWeight updates,
              c_height := newHeight updates,
              c_age := newAge updates,
              c_baseImage := newImage \<rparr>;
          skipMsg = \<lparr> m_id = toString (nowSkipId env), m_role = model,
                      m_text = skipText duration updates,
                      m_timestamp = nowSkipTimestamp env, m_isDeath = None,
                      m_generatedImage = None \<rparr>
      in rerender
           ((setMessages (\<lambda>prev. filter (\<lambda>m. m_id m \<noteq> skipCalcId) prev @ [skipMsg])
               (setActiveCharacter newCharacter st))
            \<lparr>showTimeSkipInput := False, showNewUserForm := True, isSkippingTime := False\<rparr>))"

text \<open>Lines 179 to 184: the \<^verbatim>\<open>catch\<close> block and the \<^verbatim>\<open>finally\<close> block.\<close>

definition handleTimeSkip_failed :: "chatArea \<Rightarrow> chatArea" where
  "handleTimeSkip_failed st =
     rerender
       ((setMessages (filter (\<lambda>m. m_id m \<noteq> skipCalcId))
           (st\<lparr>alerts := alerts st @ [ascii ''Erro ao processar salto no tempo.'']\<rparr>))
        \<lparr>isSkippingTime := False\<rparr>)"

text \<open>
  Lines 148 to 153, from the settled \<^verbatim>\<open>processTimeSkip\<close>. A rejected call goes to the
  \<^verbatim>\<open>catch\<close> block, and so does a call that resolved to \<^verbatim>\<open>null\<close>, on which reading
  \<^verbatim>\<open>updates.visualEvolutionPrompt\<close> throws. With a prompt the handler stops at
  \<^verbatim>\<open>await evolveCharacterVisuals(...)\<close>; without one it finishes with the image it had.
\<close>

definition handleTimeSkip_processed ::
  "character \<Rightarrow> jsstring \<Rightarrow> skipEnv \<Rightarrow> chatArea \<Rightarrow> chatArea \<times> pendingOp option" where
  "handleTimeSkip_processed character duration env st =
     (case processTimeSkip character duration (skipParse env) (skipResponse env) of
        Inr (Some updates) \<Rightarrow>
          if truthyStr (visualEvolutionPrompt updates)
          then (st, Some (AwaitEvolve character duration updates))
          else (handleTimeSkip_done character duration updates (c_baseImage character) env st, None)
      | Inr None \<Rightarrow> (handleTimeSkip_failed st, None)
      | Inl e \<Rightarrow> (handleTimeSkip_failed st, None))"

text \<open>Lines 153 to 157, from the settled image call: a failure keeps the prior image.\<close>

definition handleTimeSkip_evolved ::
  "character \<Rightarrow> jsstring \<Rightarrow> timeSkipUpdates \<Rightarrow> skipEnv \<Rightarrow> chatArea \<Rightarrow> chatArea \<times> pendingOp option" where
  "handleTimeSkip_evolved character duration updates env st =
     (handleTimeSkip_done character duration updates
        (case evolveCharacterVisuals (c_baseImage character)
                (orElse (visualEvolutionPrompt updates) []) (imageResponse env) of
           Inr img \<Rightarrow> img
         | Inl imgError \<Rightarrow> c_baseImage character)
        env st,
      None)"

text \<open>
  One whole call of \<^verbatim>\<open>handleTimeSkip\<close>, its segments in a row with no other event between
  them.
\<close>

definition handleTimeSkip :: "skipEnv \<Rightarrow> chatArea \<Rightarrow> chatArea" where
  "handleTimeSkip env st =
     (case handleTimeSkip_start env st of
        (s1, Some (AwaitTimeSkip character duration)) \<Rightarrow>
          (case handleTimeSkip_processed character duration env s1 of
             (s2, Some (AwaitEvolve character' duration' updates)) \<Rightarrow>
               fst (handleTimeSkip_evolved character' duration' updates env s2)
           | (s2, other) \<Rightarrow> s2)
      | (s1, other) \<Rightarrow> s1)"

subsection \<open>New persona after a time skip\<close>

definition entranceText :: "userPersona \<Rightarrow> jsstring" where
  "entranceText newUser =
     ascii ''*Um novo aventureiro se aproxima...*'' @ [0x000A] @ ascii ''Nome: ''
     @ u_name newUser
     @ [0x000A] @ ascii ''Idade: ''
     @ u_age newUser
     @ [0x000A] @ ascii ''Descri'' @ [0x221A, 0x00DF, 0x221A, 0x00A3] @ ascii ''o: ''
     @ u_appearance newUser"

definition handleNewUserCreated :: "nat \<Rightarrow> nat \<Rightarrow> userPersona \<Rightarrow> chatArea \<Rightarrow> chatArea" where
  "handleNewUserCreated nowId nowTimestamp newUser st =
     rerender
       ((setMessages
           (\<lambda>prev. prev @ [\<lparr> m_id = toString nowId, m_role = user, m_text = entranceText newUser,
                               m_timestamp = nowTimestamp, m_isDeath = None,
                               m_generatedImage = None \<rparr>])
           (setActiveUserPersona (Some newUser) st))
        \<lparr>showNewUserForm := False, isDead := False, isSkippingTime := False,
          timeSkipDuration := []\<rparr>)"

subsection \<open>Action scenes\<close>

record actionEnv =
  nowActionId :: nat
  nowActionTimestamp :: nat
  sceneResponse :: "error + genResponse"
  nowSceneId :: nat
  nowSceneTimestamp :: nat
  nowSceneErrTimestamp :: nat

text \<open>Lines 205 to 218: up to \<^verbatim>\<open>await generateActionScene(...)\<close>.\<close>

definition handleGenerateAction_start :: "actionEnv \<Rightarrow> chatArea \<Rightarrow> chatArea \<times> pendingOp option" where
  "handleGenerateAction_start env st =
     (if trim (actionPrompt st) = [] then (st, None)
      else
        (rerender
           (setMessages
              (\<lambda>prev. prev @ [\<lparr> m_id = toString (nowActionId env), m_role = user,
                                  m_text = ascii ''(A'' @ [0x221A, 0x00DF, 0x221A, 0x00A3] @ ascii ''o) ''
                                           @ actionPrompt st,
                                  m_timestamp = nowActionTimestamp env, m_isDeath = None,
                                  m_generatedImage = None \<rparr>])
              (st\<lparr>isGeneratingScene := True, showActionInput := False\<rparr>)),
         Some (AwaitScene (actionPrompt st))))"

text \<open>Lines 218 to 234, from the settled scene call, with the prompt the handler closed over.\<close>

definition handleGenerateAction_settled ::
  "jsstring \<Rightarrow> actionEnv \<Rightarrow> chatArea \<Rightarrow> chatArea \<times> pendingOp option" where
  "handleGenerateAction_settled prompt env st =
     (case generateActionScene (sceneResponse env) of
        Inr imageBase64 \<Rightarrow>
          (rerender
             ((setMessages
                 (\<lambda>prev. prev @ [\<lparr> m_id = toString (nowSceneId env + 1), m_role = model,
                                     m_text = ascii ''*Uma cena se desenrola: '' @ prompt @ ascii ''*'',
                                     m_timestamp = nowSceneTimestamp env, m_isDeath = None,
                                     m_generatedImage = Some imageBase64 \<rparr>])
                 st)\<lparr>actionPrompt := [], isGeneratingScene := False\<rparr>),
           None)
      | Inl e \<Rightarrow>
          (rerender
             ((setMessages
                 (\<lambda>prev. prev @ [\<lparr> m_id = ascii ''err'', m_role = model,
                                     m_text = ascii ''(Falha ao visualizar a cena)'',
                                     m_timestamp = nowSceneErrTimestamp env, m_isDeath = None,
                                     m_generatedImage = None \<rparr>])
                 st)\<lparr>isGeneratingScene := False\<rparr>),
           None))"

subsection \<open>Voice input\<close>

text \<open>
  \<^verbatim>\<open>startRecording\<close> stops at \<^verbatim>\<open>await getUserMedia(...)\<close>; with a stream it installs the
  recorder and sets \<open>isRecording\<close>, without one it alerts. \<^verbatim>\<open>stopRecording\<close> stops the
  recorder, whose \<^verbatim>\<open>onstop\<close> handler stops at \<^verbatim>\<open>await blobToBase64(...)\<close> and then at
  \<^verbatim>\<open>await transcribeAudio(...)\<close>, and puts the transcript into the input.
\<close>

definition startRecording_settled :: "bool \<Rightarrow> chatArea \<Rightarrow> chatArea \<times> pendingOp option" where
  "startRecording_settled granted st =
     (if granted then (st\<lparr>mediaRecorderRef := True, isRecording := True\<rparr>, None)
      else (st\<lparr>alerts := alerts st @ [ascii ''Microfone bloqueado'']\<rparr>, None))"

definition stopRecording :: "chatArea \<Rightarrow> chatArea \<times> pendingOp option" where
  "stopRecording st =
     (if mediaRecorderRef st \<and> isRecording st then (st\<lparr>isRecording := False\<rparr>, Some AwaitBlob)
      else (st, None))"

definition onstop_encoded :: "bool \<Rightarrow> chatArea \<Rightarrow> chatArea \<times> pendingOp option" where
  "onstop_encoded ok st =
     (if ok then (st\<lparr>isProcessing := True\<rparr>, Some AwaitTranscribe) else (st, None))"

definition onstop_transcribed :: "error + genResponse \<Rightarrow> chatArea \<Rightarrow> chatArea \<times> pendingOp option" where
  "onstop_transcribed resp st =
     (case resp of
        Inr r \<Rightarrow> (st\<lparr>inputText := orElse (r_text r) [], isProcessing := False\<rparr>, None)
      | Inl e \<Rightarrow> (st\<lparr>isProcessing := False\<rparr>, None))"

subsection \<open>The persona form (components/UserSetup.tsx)\<close>

record userSetup =
  us_name :: jsstring
  us_appearance :: jsstring
  us_height :: jsstring
  us_weight :: jsstring
  us_age :: jsstring
  us_image :: "jsstring option"

text \<open>\<^verbatim>\<open>handleSubmit\<close>: \<open>None\<close> when it returns without calling \<^verbatim>\<open>onComplete\<close>.\<close>

definition handleSubmit :: "userSetup \<Rightarrow> userPersona option" where
  "handleSubmit f =
     (if us_name f = [] \<or> us_height f = [] \<or> us_weight f = [] \<or> us_age f = [] then None
      else Some \<lparr> u_name = us_name f,
                  u_appearance = orElse (Some (us_appearance f))
                                   (ascii ''Apar'' @ [0x00EA] @ ascii ''ncia padr'' @ [0x00E3] @ ascii ''o.''),
                  u_baseImage = (if truthyStr (us_image f) then us_image f else None),
                  u_height = us_height f,
                  u_weight = us_weight f,
                  u_age = us_age f \<rparr>)"

subsection \<open>Events\<close>

text \<open>
  The events of the component: one constructor per control, carrying what the user
  typed and what the environment answers, and \<open>Settles i x\<close> for the promise of the
  \<open>i\<close>-th suspended handler settling with \<open>x\<close>. A control acts when the render shows it
  and does not disable it. A handler that stops at an await joins \<open>pending\<close>; when its
  promise settles it leaves \<open>pending\<close> and its next segment runs. Between two events the
  component has rendered, so events interleave with suspended handlers freely.
\<close>

datatype settlement =
    ChatSettled sendEnv
  | SpeakSettled
  | TimeSkipSettled skipEnv
  | VisualsSettled skipEnv
  | SceneSettled actionEnv
  | UserMediaSettled bool
  | BlobSettled bool
  | TranscribeSettled "error + genResponse"

datatype chatEvent =
    ChangeInput jsstring
  | KeyDownEnter sendEnv
  | ClickSend sendEnv
  | MouseDownMic
  | MouseUpMic
  | ToggleTTS bool
  | ClickAdvanceTime
  | ChangeDuration jsstring
  | ClickTimeSkip skipEnv
  | SubmitNewUser nat nat userSetup
  | ToggleActionInput
  | ChangeActionPrompt jsstring
  | GenerateAction actionEnv
  | CloseActionInput
  | Settles nat settlement

fun suspend :: "chatArea \<times> pendingOp option \<Rightarrow> chatArea" where
  "suspend (st, None) = st"
| "suspend (st, Some p) = st\<lparr>pending := pending st @ [p]\<rparr>"

text \<open>The next segment of a suspended handler, if the settlement is of its await.\<close>

fun resume :: "pendingOp \<Rightarrow> settlement \<Rightarrow> chatArea \<Rightarrow> (chatArea \<times> pendingOp option) option" where
  "resume (AwaitChat autoPlay) (ChatSettled env) st = Some (handleSendMessage_replied autoPlay env st)"
| "resume AwaitSpeak SpeakSettled st = Some (handleSendMessage_spoken st)"
| "resume (AwaitTimeSkip c d) (TimeSkipSettled env) st = Some (handleTimeSkip_processed c d env st)"
| "resume (AwaitEvolve c d u) (VisualsSettled env) st = Some (handleTimeSkip_evolved c d u env st)"
| "resume (AwaitScene prompt) (SceneSettled env) st = Some (handleGenerateAction_settled prompt env st)"
| "resume AwaitUserMedia (UserMediaSettled granted) st = Some (startRecording_settled granted st)"
| "resume AwaitBlob (BlobSettled ok) st = Some (onstop_encoded ok st)"
| "resume AwaitTranscribe (TranscribeSettled resp) st = Some (onstop_transcribed resp st)"
| "resume p x st = None"

fun dispatch :: "chatEvent \<Rightarrow> chatArea \<Rightarrow> chatArea" where
  "dispatch (ChangeInput t) st = (if isDead st then st else st\<lparr>inputText := t\<rparr>)"
| "dispatch (KeyDownEnter env) st =
     (if \<not> isDead st then suspend (handleSendMessage_start env st) else st)"
| "dispatch (ClickSend env) st =
     (if trim (inputText st) = [] \<or> isProcessing st \<or> isDead st then st
      else suspend (handleSendMessage_start env st))"
| "dispatch MouseDownMic st =
     (if isDead st then st else suspend (st, Some AwaitUserMedia))"
| "dispatch MouseUpMic st = (if isDead st then st else suspend (stopRecording st))"
| "dispatch (ToggleTTS b) st = st\<lparr>autoPlayTTS := b\<rparr>"
| "dispatch ClickAdvanceTime st =
     (if isDead st \<and> \<not> showTimeSkipInput st \<and> \<not> showNewUserForm st
      then st\<lparr>showTimeSkipInput := True\<rparr> else st)"
| "dispatch (ChangeDuration t) st =
     (if isDead st \<and> showTimeSkipInput st \<and> \<not> showNewUserForm st
      then st\<lparr>timeSkipDuration := t\<rparr> else st)"
| "dispatch (ClickTimeSkip env) st =
     (if isDead st \<and> showTimeSkipInput st \<and> \<not> showNewUserForm st
         \<and> \<not> (timeSkipDuration st = [] \<or> isSkippingTime st)
      then suspend (handleTimeSkip_start env st) else st)"
| "dispatch (SubmitNewUser nowId nowTimestamp f) st =
     (if showNewUserForm st
      then (case handleSubmit f of
              Some newUser \<Rightarrow> handleNewUserCreated nowId nowTimestamp newUser st
            | None \<Rightarrow> st)
      else st)"
| "dispatch ToggleActionInput st =
     (if isDead st then st else st\<lparr>showActionInput := \<not> showActionInput st\<rparr>)"
| "dispatch (ChangeActionPrompt t) st =
     (if \<not> isDead st \<and> showActionInput st then st\<lparr>actionPrompt := t\<rparr> else st)"
| "dispatch (GenerateAction env) st =
     (if \<not> isDead st \<and> showActionInput st then suspend (handleGenerateAction_start env st) else st)"
| "dispatch CloseActionInput st =
     (if \<not> isDead st \<and> showActionInput st then st\<lparr>showActionInput := False\<rparr> else st)"
| "dispatch (Settles i x) st =
     (if i < length (pending st)
      then (case resume (pending st ! i) x
                   (st\<lparr>pending := take i (pending st) @ drop (Suc i) (pending st)\<rparr>) of
              Some r \<Rightarrow> suspend r
            | None \<Rightarrow> st)
      else st)"

text \<open>
  The states a session's chat component can be in: mounted on the stored character,
  persona and log of some session (at creation, on selecting the session, on reloading
  the page), then any events.
\<close>

inductive reachable :: "chatArea \<Rightarrow> bool" where
  mounted: "reachable (mountChatArea c u ms)"
| step: "reachable st \<Longrightarrow> reachable (dispatch ev st)"

section \<open>The session collection (App)\<close>

text \<open>
  The state hooks of \<^verbatim>\<open>App\<close> and the browser's \<^verbatim>\<open>localStorage\<close>, a map from keys to
  strings. \<open>sessionsChanged\<close> records that \<^verbatim>\<open>setSessions\<close> ran since the last render, so
  that the saving effect, which depends on \<^verbatim>\<open>[sessions]\<close>, runs after it.
  \<^verbatim>\<open>JSON.stringify\<close> and \<^verbatim>\<open>JSON.parse\<close> are parameters.
\<close>

record app =
  sessions :: "chatSession list"
  activeSessionId :: "jsstring option"
  tempCharacter :: "character option"
  tempUser :: "userPersona option"
  view :: viewMode
  isSidebarOpen :: bool
  localStorage :: "jsstring \<Rightarrow> jsstring option"
  sessionsChanged :: bool

definition storageKey :: jsstring where
  "storageKey = ascii ''persona_sessions''"

definition setSessions :: "(chatSession list \<Rightarrow> chatSession list) \<Rightarrow> app \<Rightarrow> app" where
  "setSessions f st = st\<lparr>sessions := f (sessions st), sessionsChanged := True\<rparr>"

text \<open>
  What \<^verbatim>\<open>JSON.parse\<close> gives on the stored blob: it throws, it returns a value that is
  not an array (\<^verbatim>\<open>null\<close>, an object, a number, a string, a boolean), or it returns an
  array, whose elements are taken to be sessions as the application wrote them.
\<close>

datatype storedDoc = Unparseable | NotAnArray | SessionArray "chatSession list"

text \<open>
  The loading effect hands whatever was parsed to \<^verbatim>\<open>setSessions\<close>. With a value that is
  not an array the render that follows throws at \<^verbatim>\<open>sessions.find\<close>, and nothing catches
  it: that is \<open>Inl TypeError\<close>.
\<close>

definition loadEffect :: "(jsstring \<Rightarrow> storedDoc) \<Rightarrow> app \<Rightarrow> error + app" where
  "loadEffect parse st =
     (case localStorage st storageKey of
        None \<Rightarrow> Inr st
      | Some saved \<Rightarrow>
          (if saved = [] then Inr st
           else (case parse saved of
                   SessionArray parsed \<Rightarrow> Inr (setSessions (\<lambda>prev. parsed) st)
                 | NotAnArray \<Rightarrow> Inl TypeError
                 | Unparseable \<Rightarrow> Inr st)))"

definition saveEffect :: "(chatSession list \<Rightarrow> jsstring) \<Rightarrow> app \<Rightarrow> app" where
  "saveEffect stringify st =
     (if length (sessions st) > 0
      then st\<lparr>localStorage := (localStorage st)(storageKey \<mapsto> stringify (sessions st))\<rparr>
      else st)"

definition appRender :: "(chatSession list \<Rightarrow> jsstring) \<Rightarrow> app \<Rightarrow> app" where
  "appRender stringify st =
     (if sessionsChanged st then (saveEffect stringify st)\<lparr>sessionsChanged := False\<rparr> else st)"

text \<open>
  Startup over a given storage. Both effects run after the first render, where
  \<open>sessions\<close> is empty and the saving effect therefore writes nothing; the render that
  follows a successful load runs the saving effect again.
\<close>

definition mountApp ::
  "(chatSession list \<Rightarrow> jsstring) \<Rightarrow> (jsstring \<Rightarrow> storedDoc)
     \<Rightarrow> (jsstring \<Rightarrow> jsstring option) \<Rightarrow> error + app" where
  "mountApp stringify parse storage =
     (case loadEffect parse
             (saveEffect stringify
                \<lparr> sessions = [], activeSessionId = None, tempCharacter = None, tempUser = None,
                  view = WELCOME, isSidebarOpen = False, localStorage = storage,
                  sessionsChanged = False \<rparr>) of
        Inl e \<Rightarrow> Inl e
      | Inr st \<Rightarrow> Inr (appRender stringify st))"

definition handleStartApp :: "app \<Rightarrow> app" where
  "handleStartApp st =
     (if length (sessions st) > 0 then st\<lparr>activeSessionId := None, view := SETUP\<rparr>
      else st\<lparr>view := SETUP\<rparr>)"

definition handleCreateNew :: "app \<Rightarrow> app" where
  "handleCreateNew st =
     st\<lparr>activeSessionId := None, tempCharacter := None, tempUser := None, view := SETUP,
        isSidebarOpen := False\<rparr>"

definition handleCharacterComplete :: "character \<Rightarrow> app \<Rightarrow> app" where
  "handleCharacterComplete char st = st\<lparr>tempCharacter := Some char, view := USER_SETUP\<rparr>"

definition handleUserSetupComplete :: "nat \<Rightarrow> nat \<Rightarrow> nat \<Rightarrow> userPersona \<Rightarrow> app \<Rightarrow> app" where
  "handleUserSetupComplete nowId nowTimestamp nowUpdated usr st =
     (let st1 = st\<lparr>tempUser := Some usr\<rparr>
      in case tempCharacter st of
           None \<Rightarrow> st1
         | Some tc \<Rightarrow>
             let newSession =
                   \<lparr> s_id = toString nowId,
                     s_character = tc,
                     s_userPersona = Some usr,
                     s_messages = [\<lparr> m_id = ascii ''init'', m_role = model,
                                     m_text = ascii ''*'' @ c_name tc @ ascii '' entra na sala.*'',
                                     m_timestamp = nowTimestamp, m_isDeath = None,
                                     m_generatedImage = None \<rparr>],
                     s_lastUpdated = nowUpdated,
                     s_previewText = Some (ascii ''In'' @ [0x00ED] @ ascii ''cio da jornada...'') \<rparr>
             in (setSessions (\<lambda>prev. newSession # prev) st1)
                  \<lparr>activeSessionId := Some (s_id newSession), view := CHAT\<rparr>)"

definition handleSelectSession :: "jsstring \<Rightarrow> app \<Rightarrow> app" where
  "handleSelectSession sessionId st =
     st\<lparr>activeSessionId := Some sessionId, tempCharacter := None, tempUser := None, view := CHAT,
        isSidebarOpen := False\<rparr>"

text \<open>\<open>confirmed\<close> is the answer to the \<^verbatim>\<open>confirm\<close> dialog.\<close>

definition handleDeleteSession :: "bool \<Rightarrow> jsstring \<Rightarrow> app \<Rightarrow> app" where
  "handleDeleteSession confirmed sessionId st =
     (if confirmed
      then let st1 = setSessions (filter (\<lambda>s. s_id s \<noteq> sessionId)) st
           in if activeSessionId st = Some sessionId
              then st1\<lparr>activeSessionId := None, view := SETUP\<rparr>
              else st1
      else st)"

definition handleSessionUpdate ::
  "nat \<Rightarrow> message list \<Rightarrow> character \<Rightarrow> userPersona option \<Rightarrow> app \<Rightarrow> app" where
  "handleSessionUpdate now msgs updatedCharacter updatedUser st =
     (if \<not> truthyStr (activeSessionId st) then st
      else setSessions
             (map (\<lambda>s. if Some (s_id s) = activeSessionId st
                        then s\<lparr> s_messages := msgs,
                                s_character := updatedCharacter,
                                s_userPersona := updatedUser,
                                s_lastUpdated := now,
                                s_previewText :=
                                  (case msgs of
                                     [] \<Rightarrow> s_previewText s
                                   | m # rest \<Rightarrow> Some (take 40 (m_text (last msgs)) @ ascii ''...'')) \<rparr>
                        else s))
             st)"

datatype appEvent =
    StartApp
  | CreateNew
  | CharacterComplete character
  | UserSetupComplete nat nat nat userPersona
  | SelectSession jsstring
  | DeleteSession bool jsstring
  | SessionUpdate nat "message list" character "userPersona option"

fun appHandler :: "appEvent \<Rightarrow> app \<Rightarrow> app" where
  "appHandler StartApp st = handleStartApp st"
| "appHandler CreateNew st = handleCreateNew st"
| "appHandler (CharacterComplete char) st = handleCharacterComplete char st"
| "appHandler (UserSetupComplete nowId nowTimestamp nowUpdated usr) st =
     handleUserSetupComplete nowId nowTimestamp nowUpdated usr st"
| "appHandler (SelectSession sessionId) st = handleSelectSession sessionId st"
| "appHandler (DeleteSession confirmed sessionId) st = handleDeleteSession confirmed sessionId st"
| "appHandler (SessionUpdate now msgs c u) st = handleSessionUpdate now msgs c u st"

text \<open>An event of the application: its handler, then the render with its effects.\<close>

definition appDispatch :: "(chatSession list \<Rightarrow> jsstring) \<Rightarrow> appEvent \<Rightarrow> app \<Rightarrow> app" where
  "appDispatch stringify ev st = appRender stringify (appHandler ev st)"

section \<open>Character creation (components/CharacterSetup.tsx)\<close>

definition QUESTIONS :: "jsstring list" where
  "QUESTIONS =
     [ascii ''Como essa criatura/personagem surgiu? (Nascimento natural, experimento, maldi''
        @ [0x00E7, 0x00E3] @ ascii ''o, constru'' @ [0x00E7, 0x00E3] @ ascii ''o...)'',
      ascii ''Qual '' @ [0x00E9] @ ascii '' o seu habitat natural? O ambiente '' @ [0x00E9]
        @ ascii '' hostil ou acolhedor?'',
      ascii ''Ela '' @ [0x00E9] @ ascii '' '' @ [0x00FA] @ ascii ''nica ou parte de uma esp''
        @ [0x00E9] @ ascii ''cie? Segue normas do grupo ou '' @ [0x00E9] @ ascii '' p''
        @ [0x00E1] @ ascii ''ria?'',
      ascii ''O que ela mais deseja neste exato momento? (Comida, seguran'' @ [0x00E7]
        @ ascii ''a, poder...)'',
      ascii ''Qual '' @ [0x00E9] @ ascii '' o seu objetivo de longo prazo?'',
      ascii ''O que ela estaria disposta a sacrificar para conseguir o que quer?'',
      ascii ''Do que ela tem medo? (F'' @ [0x00ED] @ ascii ''sico ou abstrato)'',
      ascii ''Qual '' @ [0x00E9] @ ascii '' a sua maior fraqueza?'',
      ascii ''O que a faria fugir de uma batalha?'',
      ascii ''Como ela reage ao desconhecido? (Curiosidade, agressividade, cautela)'',
      ascii ''Ela possui algum c'' @ [0x00F3] @ ascii ''digo moral ou de honra?'',
      ascii ''Como ela se comunica? (Linguagem, grunhidos, telepatia)'',
      ascii ''O que a faria poupar a vida de um inimigo?'',
      ascii ''Ela tem algum h'' @ [0x00E1] @ ascii ''bito ou '' @ [0x0027] @ ascii ''tique''
        @ [0x0027] @ ascii '' estranho?'',
      ascii ''Como ela passa o tempo quando n'' @ [0x00E3] @ ascii ''o est'' @ [0x00E1]
        @ ascii '' ca'' @ [0x00E7] @ ascii ''ando ou trabalhando?'']"

text \<open>
  The form's state: the fields that make up the character, the tab that is open, and
  the \<^verbatim>\<open>alert\<close> calls. The answers object has numbers as keys; \<open>None\<close> is the key
  \<^verbatim>\<open>NaN\<close>. It is kept in the order JavaScript enumerates it: array indices ascending,
  then the other keys in insertion order. Image upload and image editing, which the
  properties below do not involve, are not modelled.
\<close>

datatype tab = INFO | PERSONALITY | DIET | LOCATION

record characterSetup =
  activeTab :: tab
  f_image :: "jsstring option"
  f_name :: jsstring
  f_description :: jsstring
  f_storyTone :: jsstring
  f_height :: jsstring
  f_weight :: jsstring
  f_age :: jsstring
  f_lifeExpectancy :: jsstring
  f_powers :: jsstring
  f_environment :: jsstring
  f_whoSawFirst :: whoSawFirst
  f_dietType :: dietType
  f_dietDetails :: jsstring
  f_eatsHumans :: bool
  f_humanPreferences :: humanPreferences
  f_answers :: "(int option \<times> jsstring) list"
  isAutoFilling :: bool
  f_alerts :: "jsstring list"

definition anyone :: jsstring where
  "anyone = ascii ''Qualquer um''"

text \<open>The form as \<^verbatim>\<open>App\<close> mounts it, with no existing character.\<close>

definition mountCharacterSetup :: characterSetup where
  "mountCharacterSetup =
     \<lparr> activeTab = INFO, f_image = None, f_name = [], f_description = [],
       f_storyTone = ascii ''Sombrio e Realista'', f_height = [], f_weight = [], f_age = [],
       f_lifeExpectancy = [], f_powers = [], f_environment = [], f_whoSawFirst = BOTH,
       f_dietType = HERBIVORE, f_dietDetails = [], f_eatsHumans = False,
       f_humanPreferences = \<lparr> ageGroup = anyone, bodyType = anyone, tastePreference = anyone \<rparr>,
       f_answers = [], isAutoFilling = False, f_alerts = [] \<rparr>"

text \<open>
  A number key is an array index when it is an integer from 0 to \<open>2^32 - 2\<close>; array
  indices are enumerated first, ascending, and every other key after them, in insertion
  order.
\<close>

fun isArrayIndex :: "int option \<Rightarrow> bool" where
  "isArrayIndex None = False"
| "isArrayIndex (Some i) = (0 \<le> i \<and> i \<le> 4294967294)"

text \<open>Whether key \<open>k\<close> is an array index that is enumerated before key \<open>k'\<close>.\<close>

fun indexBefore :: "int option \<Rightarrow> int option \<Rightarrow> bool" where
  "indexBefore (Some i) (Some j) =
     (isArrayIndex (Some i) \<and> (if isArrayIndex (Some j) then i < j else True))"
| "indexBefore (Some i) None = isArrayIndex (Some i)"
| "indexBefore None k = False"

text \<open>\<^verbatim>\<open>obj[k] = v\<close> on an object with number keys.\<close>

fun numPut :: "int option \<Rightarrow> jsstring \<Rightarrow> (int option \<times> jsstring) list \<Rightarrow> (int option \<times> jsstring) list" where
  "numPut k v [] = [(k, v)]"
| "numPut k v ((k', v') # rest) =
     (if k' = k then (k, v) # rest
      else if indexBefore k k' then (k, v) # (k', v') # rest
      else (k', v') # numPut k v rest)"

text \<open>\<^verbatim>\<open>{...obj, [k]: v}\<close> on an object whose keys are not array indices.\<close>

fun strPut :: "jsstring \<Rightarrow> jsstring \<Rightarrow> (jsstring \<times> jsstring) list \<Rightarrow> (jsstring \<times> jsstring) list" where
  "strPut k v [] = [(k, v)]"
| "strPut k v ((k', v') # rest) =
     (if k' = k then (k, v) # rest else (k', v') # strPut k v rest)"

text \<open>\<^verbatim>\<open>QUESTIONS[i]\<close> as a property key: a missing element is \<^verbatim>\<open>undefined\<close>.\<close>

definition questionKey :: "int option \<Rightarrow> jsstring" where
  "questionKey k =
     (case k of
        Some i \<Rightarrow> if 0 \<le> i \<and> nat i < length QUESTIONS then QUESTIONS ! nat i
                  else ascii ''undefined''
      | None \<Rightarrow> ascii ''undefined'')"

text \<open>
  \<^verbatim>\<open>handleComplete\<close>: \<open>Inl\<close> is the text of the alert when name or description is missing,
  \<open>Inr\<close> the character handed to \<^verbatim>\<open>onComplete\<close>.
\<close>

definition handleComplete :: "nat \<Rightarrow> characterSetup \<Rightarrow> jsstring + character" where
  "handleComplete now st =
     (if f_name st = [] \<or> f_description st = []
      then Inl (ascii ''Preencha pelo menos Nome e Descri'' @ [0x00E7, 0x00E3] @ ascii ''o.'')
      else
        let finalImage = orElse (f_image st)
              (ascii ''iVBORw0KGgoAAAANSUhEUgAAAAEAAAABCAQAAAC1HAwCAAAAC0lEQVR42mNk''
               @ ascii ''+A8AAQUBAScY42YAAAAASUVORK5CYII='')
        in Inr \<lparr> c_id = toString now,
                 c_name = f_name st,
                 c_description = f_description st,
                 c_baseImage = finalImage,
                 c_systemInstruction =
                   ascii ''Voc'' @ [0x00EA] @ ascii '' '' @ [0x00E9] @ ascii '' '' @ f_name st
                   @ ascii ''. '' @ f_description st @ ascii ''. Tom da hist'' @ [0x00F3]
                   @ ascii ''ria: '' @ f_storyTone st @ ascii ''.'',
                 c_height = Some (f_height st),
                 c_weight = Some (f_weight st),
                 c_powers = Some (f_powers st),
                 c_age = Some (f_age st),
                 c_lifeExpectancy = Some (f_lifeExpectancy st),
                 c_diet = Some \<lparr> d_type = f_dietType st,
                                  d_details = f_dietDetails st,
                                  d_eatsHumans = f_eatsHumans st,
                                  d_humanPreferences =
                                    (if f_eatsHumans st then Some (f_humanPreferences st)
                                     else None) \<rparr>,
                 c_encounter = Some \<lparr> environment = f_environment st,
                                       whoSawFirst = f_whoSawFirst st \<rparr>,
                 c_questionAnswers =
                   Some (fold (\<lambda>(k, v) acc. strPut (questionKey k) v acc) (f_answers st) []) \<rparr>)"

subsection \<open>Profile autofill\<close>

record profile =
  p_name :: jsstring
  p_backstory :: jsstring
  p_height :: jsstring
  p_weight :: jsstring
  p_age :: jsstring
  p_lifeExpectancy :: jsstring
  p_powers :: jsstring
  p_environment :: jsstring
  p_diet :: "dietConfig option"
  p_answers :: "(jsstring \<times> jsstring) list option"

definition autoFillCharacterProfile ::
  "jsstring \<Rightarrow> jsstring list \<Rightarrow> jsstring \<Rightarrow> (jsstring \<Rightarrow> profile option) \<Rightarrow> error + genResponse
     \<Rightarrow> error + profile" where
  "autoFillCharacterProfile visualDescription questionIds storyTone parse resp =
     (case resp of
        Inl e \<Rightarrow> Inl e
      | Inr r \<Rightarrow>
          (case parse (orElse (r_text r) (ascii ''{}'')) of
             Some raw \<Rightarrow>
               Inr (raw\<lparr>p_answers := Some (case p_answers raw of None \<Rightarrow> [] | Some a \<Rightarrow> a)\<rparr>)
           | None \<Rightarrow>
               Inl (Error (ascii ''Falha ao gerar perfil autom'' @ [0x00E1] @ ascii ''tico.''))))"

text \<open>
  What the environment supplies to \<^verbatim>\<open>handleAutoFill\<close>: the backend's response, and the
  builtins \<^verbatim>\<open>JSON.parse\<close> and \<^verbatim>\<open>parseInt\<close> (\<open>None\<close> is \<^verbatim>\<open>NaN\<close>).
\<close>

record autoFillEnv =
  profileResponse :: "error + genResponse"
  profileParse :: "jsstring \<Rightarrow> profile option"
  parseInt :: "jsstring \<Rightarrow> int option"

definition handleAutoFill :: "autoFillEnv \<Rightarrow> characterSetup \<Rightarrow> characterSetup" where
  "handleAutoFill env st =
     (if f_storyTone st = []
      then st\<lparr>f_alerts := f_alerts st
                 @ [ascii ''Defina um Tom para a hist'' @ [0x00F3]
                    @ ascii ''ria (ex: Gore, Terror, Aventura).'']\<rparr>
      else
        case autoFillCharacterProfile (f_description st)
               (map (\<lambda>i. toString i) [0..<length QUESTIONS]) (f_storyTone st)
               (profileParse env) (profileResponse env) of
          Inr result \<Rightarrow>
            let s1 = st\<lparr> f_name := p_name result,
                         f_description := p_backstory result,
                         f_height := orElse (Some (p_height result)) (f_height st),
                         f_weight := orElse (Some (p_weight result)) (f_weight st),
                         f_age := orElse (Some (p_age result)) (f_age st),
                         f_lifeExpectancy := orElse (Some (p_lifeExpectancy result)) (f_lifeExpectancy st),
                         f_powers := orElse (Some (p_powers result)) (f_powers st),
                         f_environment := orElse (Some (p_environment result)) (f_environment st) \<rparr>;
                s2 = (case p_diet result of
                        None \<Rightarrow> s1
                      | Some d \<Rightarrow>
                          let s1d = s1\<lparr> f_dietType := d_type d,
                                         f_dietDetails := d_details d,
                                         f_eatsHumans := d_eatsHumans d \<rparr>
                          in (case d_humanPreferences d of
                                None \<Rightarrow> s1d
                              | Some hp \<Rightarrow>
                                  s1d\<lparr>f_humanPreferences :=
                                        \<lparr> ageGroup = orElse (Some (ageGroup hp)) anyone,
                                          bodyType = orElse (Some (bodyType hp)) anyone,
                                          tastePreference = orElse (Some (tastePreference hp)) anyone \<rparr>\<rparr>));
                s3 = (case p_answers result of
                        None \<Rightarrow> s2
                      | Some a \<Rightarrow>
                          s2\<lparr>f_answers := fold (\<lambda>(k, v) acc. numPut (parseInt env k) v acc) a []\<rparr>)
            in s3\<lparr>isAutoFilling := False\<rparr>
        | Inl e \<Rightarrow>
            st\<lparr> f_alerts := f_alerts st
                   @ [ascii ''Falha ao gerar perfil autom'' @ [0x00E1]
                      @ ascii ''tico. Verifique sua cota da API ou tente novamente.''],
                isAutoFilling := False \<rparr>)"

subsection \<open>The form's controls\<close>

text \<open>
  A control acts when the open tab renders it: the diet tab shows the human-eating
  checkbox only for a carnivore, and the three preference fields only when it is checked.
\<close>

datatype setupEvent =
    SelectTab tab
  | ChangeStoryTone jsstring
  | ClickAutoFill autoFillEnv
  | ChangeName jsstring
  | ChangeHeight jsstring
  | ChangeWeight jsstring
  | ChangeAge jsstring
  | ChangeLifeExpectancy jsstring
  | ChangePowers jsstring
  | ChangeDescription jsstring
  | ChangeAnswer nat jsstring
  | SelectDietType dietType
  | ChangeDietDetails jsstring
  | CheckEatsHumans bool
  | ChangeHumanPreferences humanPreferences
  | ChangeEnvironment jsstring
  | SelectWhoSawFirst whoSawFirst

fun setupDispatch :: "setupEvent \<Rightarrow> characterSetup \<Rightarrow> characterSetup" where
  "setupDispatch (SelectTab t) st = st\<lparr>activeTab := t\<rparr>"
| "setupDispatch (ChangeStoryTone t) st =
     (if activeTab st = INFO then st\<lparr>f_storyTone := t\<rparr> else st)"
| "setupDispatch (ClickAutoFill env) st =
     (if activeTab st = INFO \<and> \<not> (isAutoFilling st \<or> f_storyTone st = [])
      then handleAutoFill env st else st)"
| "setupDispatch (ChangeName t) st = (if activeTab st = INFO then st\<lparr>f_name := t\<rparr> else st)"
| "setupDispatch (ChangeHeight t) st = (if activeTab st = INFO then st\<lparr>f_height := t\<rparr> else st)"
| "setupDispatch (ChangeWeight t) st = (if activeTab st = INFO then st\<lparr>f_weight := t\<rparr> else st)"
| "setupDispatch (ChangeAge t) st = (if activeTab st = INFO then st\<lparr>f_age := t\<rparr> else st)"
| "setupDispatch (ChangeLifeExpectancy t) st =
     (if activeTab st = INFO then st\<lparr>f_lifeExpectancy := t\<rparr> else st)"
| "setupDispatch (ChangePowers t) st = (if activeTab st = INFO then st\<lparr>f_powers := t\<rparr> else st)"
| "setupDispatch (ChangeDescription t) st =
     (if activeTab st = INFO then st\<lparr>f_description := t\<rparr> else st)"
| "setupDispatch (ChangeAnswer i t) st =
     (if activeTab st = PERSONALITY \<and> i < length QUESTIONS
      then st\<lparr>f_answers := numPut (Some (int i)) t (f_answers st)\<rparr> else st)"
| "setupDispatch (SelectDietType t) st =
     (if activeTab st = DIET then st\<lparr>f_dietType := t\<rparr> else st)"
| "setupDispatch (ChangeDietDetails t) st =
     (if activeTab st = DIET then st\<lparr>f_dietDetails := t\<rparr> else st)"
| "setupDispatch (CheckEatsHumans b) st =
     (if activeTab st = DIET \<and> f_dietType st = CARNIVORE then st\<lparr>f_eatsHumans := b\<rparr> else st)"
| "setupDispatch (ChangeHumanPreferences hp) st =
     (if activeTab st = DIET \<and> f_dietType st = CARNIVORE \<and> f_eatsHumans st
      then st\<lparr>f_humanPreferences := hp\<rparr> else st)"
| "setupDispatch (ChangeEnvironment t) st =
     (if activeTab st = LOCATION then st\<lparr>f_environment := t\<rparr> else st)"
| "setupDispatch (SelectWhoSawFirst w) st =
     (if activeTab st = LOCATION then st\<lparr>f_whoSawFirst := w\<rparr> else st)"

section \<open>Sample inputs\<close>

text \<open>Concrete inputs on which the properties below are exercised.\<close>

definition exampleCharacter :: character where
  "exampleCharacter =
     \<lparr> c_id = ascii ''1'', c_name = ascii ''Ogro'', c_description = ascii ''Um ogro.'',
       c_baseImage = ascii ''img0'', c_systemInstruction = ascii ''sys'',
       c_height = Some (ascii ''3m''), c_weight = Some (ascii ''400kg''), c_powers = None,
       c_age = Some (ascii ''90''), c_lifeExpectancy = None, c_diet = None,
       c_encounter = None, c_questionAnswers = None \<rparr>"

definition exampleUser :: userPersona where
  "exampleUser =
     \<lparr> u_name = ascii ''Ana'', u_appearance = ascii ''Alta'', u_baseImage = None,
       u_height = ascii ''1.7m'', u_weight = ascii ''60kg'', u_age = ascii ''30'' \<rparr>"

definition seedMessage :: message where
  "seedMessage =
     \<lparr> m_id = ascii ''init'', m_role = model, m_text = ascii ''*Ogro entra na sala.*'',
       m_timestamp = 1000, m_isDeath = None, m_generatedImage = None \<rparr>"

text \<open>A freshly created session, with a message typed into the input.\<close>

definition freshChat :: chatArea where
  "freshChat =
     dispatch (ChangeInput (ascii ''oi''))
       (mountChatArea exampleCharacter (Some exampleUser) [seedMessage])"

definition replyEnv :: "nat \<Rightarrow> error + genResponse \<Rightarrow> sendEnv" where
  "replyEnv t resp =
     \<lparr> nowUserId = t, nowUserTimestamp = t, chatResponse = resp, nowBotId = t + 500,
       nowBotTimestamp = t + 500, nowErrTimestamp = t + 500 \<rparr>"

definition textResponse :: "jsstring \<Rightarrow> error + genResponse" where
  "textResponse t = Inr \<lparr> r_text = Some t, r_candidates = None \<rparr>"

text \<open>A chat turn that is answered before anything else happens: Enter, then the reply.\<close>

definition turn :: "sendEnv \<Rightarrow> chatArea \<Rightarrow> chatArea" where
  "turn env st = dispatch (Settles 0 (ChatSettled env)) (dispatch (KeyDownEnter env) st)"

text \<open>The session after a reply that ends in the death tag, and then with a duration entered.\<close>

definition deadChat :: chatArea where
  "deadChat = turn (replyEnv 2000 (textResponse (ascii ''Fim. [GAME_OVER]''))) freshChat"

definition skipReadyChat :: chatArea where
  "skipReadyChat = dispatch (ChangeDuration (ascii ''10 anos'')) (dispatch ClickAdvanceTime deadChat)"

definition exampleUpdates :: timeSkipUpdates where
  "exampleUpdates =
     \<lparr> newWeight = Some (ascii ''300kg''), newHeight = Some (ascii ''3m''),
       newAge = Some (ascii ''310''), stats = Some (ascii ''...''), summary = Some (ascii ''...''),
       visualEvolutionPrompt = Some [] \<rparr>"

definition skipOkEnv :: skipEnv where
  "skipOkEnv =
     \<lparr> nowPlaceholderTimestamp = 4000, skipResponse = textResponse (ascii ''{...}''),
       skipParse = (\<lambda>t. Value exampleUpdates), imageResponse = Inl ApiFailure,
       nowSkipId = 5000, nowSkipTimestamp = 5000 \<rparr>"


definition skipMalformedEnv :: skipEnv where
  "skipMalformedEnv = skipOkEnv\<lparr>skipResponse := textResponse (ascii ''{bad''), skipParse := (\<lambda>t. Malformed)\<rparr>"

text \<open>A response of the image backend that carries text only.\<close>

definition noImageResponse :: genResponse where
  "noImageResponse = \<lparr> r_text = Some (ascii ''no''), r_candidates = Some [Some [None]] \<rparr>"

definition skipNoImageEnv :: skipEnv where
  "skipNoImageEnv =
     skipOkEnv\<lparr>skipParse := (\<lambda>t. Value (exampleUpdates\<lparr>visualEvolutionPrompt := Some (ascii ''older'')\<rparr>)),
               imageResponse := Inr noImageResponse\<rparr>"



text \<open>A time-skip answer that is the document \<open>null\<close>.\<close>

definition skipNullEnv :: skipEnv where
  "skipNullEnv =
     skipOkEnv\<lparr>skipResponse := textResponse (ascii ''null''),
               skipParse := (\<lambda>t. if t = ascii ''null'' then Null else Malformed)\<rparr>"

definition awaitingChat :: chatArea where
  "awaitingChat =
     dispatch (Settles 0 (TimeSkipSettled skipOkEnv)) (dispatch (ClickTimeSkip skipOkEnv) skipReadyChat)"

definition exampleUserForm :: userSetup where
  "exampleUserForm =
     \<lparr> us_name = ascii ''Bia'', us_appearance = [], us_height = ascii ''1.6m'',
       us_weight = ascii ''55kg'', us_age = ascii ''25'', us_image = None \<rparr>"

definition exampleNewUser :: userPersona where
  "exampleNewUser =
     \<lparr> u_name = ascii ''Bia'',
       u_appearance = ascii ''Apar'' @ [0x00EA] @ ascii ''ncia padr'' @ [0x00E3] @ ascii ''o.'',
       u_baseImage = None, u_height = ascii ''1.6m'', u_weight = ascii ''55kg'',
       u_age = ascii ''25'' \<rparr>"

text \<open>A stored collection of one session, with a stand-in serialiser that lists the session ids.\<close>

definition exampleSession :: chatSession where
  "exampleSession =
     \<lparr> s_id = ascii ''1000'', s_character = exampleCharacter, s_userPersona = Some exampleUser,
       s_messages = [seedMessage], s_lastUpdated = 1000, s_previewText = None \<rparr>"

definition idsOf :: "chatSession list \<Rightarrow> jsstring" where
  "idsOf ss = concat (map (\<lambda>s. s_id s @ ascii '';'') ss)"

definition exampleApp :: app where
  "exampleApp =
     \<lparr> sessions = [exampleSession], activeSessionId = Some (ascii ''1000''),
       tempCharacter = None, tempUser = None, view = CHAT, isSidebarOpen = False,
       localStorage = Map.empty(storageKey \<mapsto> idsOf [exampleSession]),
       sessionsChanged = False \<rparr>"

text \<open>
  A stand-in parser: it reads back the document of the one-session collection, takes
  \<open>null\<close> for the value it is, and throws on anything else.
\<close>

definition readIds :: "jsstring \<Rightarrow> storedDoc" where
  "readIds t =
     (if t = idsOf [exampleSession] then SessionArray [exampleSession]
      else if t = ascii ''null'' then NotAnArray
      else Unparseable)"

text \<open>The application after its only session was deleted.\<close>

definition emptiedApp :: app where
  "emptiedApp = appDispatch idsOf (DeleteSession True (ascii ''1000'')) exampleApp"

text \<open>The form after: name, description, diet tab, carnivore, eats humans, herbivore.\<close>

definition herbivoreAfterCarnivore :: characterSetup where
  "herbivoreAfterCarnivore =
     setupDispatch (SelectDietType HERBIVORE)
       (setupDispatch (CheckEatsHumans True)
          (setupDispatch (SelectDietType CARNIVORE)
             (setupDispatch (SelectTab DIET)
                (setupDispatch (ChangeDescription (ascii ''Um ogro.''))
                   (setupDispatch (ChangeName (ascii ''Ogro'')) mountCharacterSetup)))))"

definition malformedProfileEnv :: autoFillEnv where
  "malformedProfileEnv =
     \<lparr> profileResponse = textResponse (ascii ''{bad''), profileParse = (\<lambda>t. None),
       parseInt = (\<lambda>t. None) \<rparr>"


text \<open>The session after a reply that carries the death tag twice.\<close>

definition doubleTagChat :: chatArea where
  "doubleTagChat =
     turn (replyEnv 2000 (textResponse (ascii ''Fim. [GAME_OVER] [GAME_OVER]''))) freshChat"

text \<open>The session after two messages whose chat call failed.\<close>

definition twoFailuresChat :: chatArea where
  "twoFailuresChat =
     turn (replyEnv 3000 (Inl ApiFailure))
       (dispatch (ChangeInput (ascii ''oi''))
          (turn (replyEnv 2000 (Inl ApiFailure)) freshChat))"

text \<open>
  Two turns in flight: a message is sent with Enter, and a second one is typed and sent
  with Enter before the first reply has come. Then the first reply comes and ends in the
  death tag, and then the second reply comes.
\<close>

definition typedWhilePendingChat :: chatArea where
  "typedWhilePendingChat =
     dispatch (ChangeInput (ascii ''oi''))
       (dispatch (KeyDownEnter (replyEnv 2000 (textResponse (ascii ''Fim. [GAME_OVER]'')))) freshChat)"

definition racingChat :: chatArea where
  "racingChat =
     dispatch (KeyDownEnter (replyEnv 2100 (textResponse (ascii ''Oi'')))) typedWhilePendingChat"

definition raceDeadChat :: chatArea where
  "raceDeadChat =
     dispatch (Settles 0 (ChatSettled (replyEnv 2000 (textResponse (ascii ''Fim. [GAME_OVER]'')))))
       racingChat"

definition raceAfterChat :: chatArea where
  "raceAfterChat =
     dispatch (Settles 0 (ChatSettled (replyEnv 2100 (textResponse (ascii ''Oi''))))) raceDeadChat"

text \<open>The session of \<open>awaitingChat\<close> opened again, from what the component last handed up.\<close>

definition reopenedChat :: chatArea where
  "reopenedChat =
     mountChatArea (activeCharacter awaitingChat) (activeUserPersona awaitingChat)
       (messages awaitingChat)"

section \<open>Properties\<close>

subsection \<open>Auxiliary facts\<close>

lemma toString_last: "last (toString n) = digit (n mod 10)"
  by (subst toString.simps) simp

lemma digit_not_c: "d < 10 \<Longrightarrow> digit d \<noteq> 0x63"
proof -
  assume "d < 10"
  then have "d \<in> {0, 1, 2, 3, 4, 5, 6, 7, 8, 9}" by auto
  then show ?thesis by (auto simp: digit_def)
qed

lemma toString_not_skipCalc: "toString n \<noteq> skipCalcId"
proof
  assume h: "toString n = skipCalcId"
  have "last skipCalcId = 0x63" by (simp add: skipCalcId_def ascii_def)
  with h have "digit (n mod 10) = 0x63" using toString_last [of n] by simp
  moreover have "n mod 10 < 10" by simp
  ultimately show False using digit_not_c by blast
qed

lemmas chat_defs = rerender_def sessionEffect_def setMessages_def setActiveCharacter_def
  setActiveUserPersona_def Let_def

lemmas skip_defs = handleTimeSkip_def handleTimeSkip_start_def handleTimeSkip_processed_def
  handleTimeSkip_evolved_def handleTimeSkip_done_def handleTimeSkip_failed_def

lemmas send_defs = turn_def handleSendMessage_start_def handleSendMessage_replied_def
  handleSendMessage_spoken_def chatWithCharacter_def deathTag_def trim_def isWhiteSpace_def

lemmas eval_defs = chat_defs skip_defs send_defs handleNewUserCreated_def
  mountChatArea_def lastIsDeath_def processTimeSkip_def
  ascii_def replyEnv_def textResponse_def skipCalcId_def
  derivedState_def handleSubmit_def

subsection \<open>Time skip\<close>

lemma skip_success_messages:
  assumes "timeSkipDuration st \<noteq> []"
    and "processTimeSkip (activeCharacter st) (timeSkipDuration st) (skipParse env) (skipResponse env)
           = Inr (Some updates)"
  shows "messages (handleTimeSkip env st) =
           filter (\<lambda>m. m_id m \<noteq> skipCalcId) (messages st)
           @ [\<lparr> m_id = toString (nowSkipId env), m_role = model,
                 m_text = skipText (timeSkipDuration st) updates,
                 m_timestamp = nowSkipTimestamp env, m_isDeath = None,
                 m_generatedImage = None \<rparr>]"
  using assms by (simp add: skip_defs chat_defs)

lemma skip_success_flags:
  assumes "timeSkipDuration st \<noteq> []"
    and "processTimeSkip (activeCharacter st) (timeSkipDuration st) (skipParse env) (skipResponse env)
           = Inr (Some updates)"
  shows "showNewUserForm (handleTimeSkip env st)" and "alerts (handleTimeSkip env st) = alerts st"
  using assms by (simp_all add: skip_defs chat_defs)

lemma skip_success_character:
  assumes "timeSkipDuration st \<noteq> []"
    and "processTimeSkip (activeCharacter st) (timeSkipDuration st) (skipParse env) (skipResponse env)
           = Inr (Some updates)"
  shows "activeCharacter (handleTimeSkip env st) =
      (activeCharacter st)
        \<lparr> c_weight := newWeight updates,
          c_height := newHeight updates,
          c_age := newAge updates,
          c_baseImage :=
            (if truthyStr (visualEvolutionPrompt updates)
             then (case evolveCharacterVisuals (c_baseImage (activeCharacter st))
                          (orElse (visualEvolutionPrompt updates) []) (imageResponse env) of
                     Inr img \<Rightarrow> img
                   | Inl imgError \<Rightarrow> c_baseImage (activeCharacter st))
             else c_baseImage (activeCharacter st)) \<rparr>"
  using assms by (simp add: skip_defs chat_defs)

lemma skipReadyChat_eval:
  "timeSkipDuration skipReadyChat = ascii ''10 anos''"
  "activeCharacter skipReadyChat = exampleCharacter"
  "isDead skipReadyChat" "\<not> showNewUserForm skipReadyChat" "\<not> isSkippingTime skipReadyChat"
  "showTimeSkipInput skipReadyChat" "alerts skipReadyChat = []"
  "messages skipReadyChat = [seedMessage,
      \<lparr> m_id = toString 2000, m_role = user, m_text = ascii ''oi'', m_timestamp = 2000,
         m_isDeath = None, m_generatedImage = None \<rparr>,
      \<lparr> m_id = toString 2501, m_role = model, m_text = ascii ''Fim.'', m_timestamp = 2500,
         m_isDeath = Some True, m_generatedImage = None \<rparr>]"
  "pending skipReadyChat = []"
  "activeUserPersona skipReadyChat = Some exampleUser"
  by (simp_all add: skipReadyChat_def deadChat_def freshChat_def eval_defs seedMessage_def)


text \<open>
  The last segment of a time skip does the same on whatever state the component is in
  when the answers arrive.
\<close>

lemma time_skip_done_anywhere:
  "messages (handleTimeSkip_done c d u img env st) =
     filter (\<lambda>m. m_id m \<noteq> skipCalcId) (messages st)
     @ [\<lparr> m_id = toString (nowSkipId env), m_role = model, m_text = skipText d u,
           m_timestamp = nowSkipTimestamp env, m_isDeath = None, m_generatedImage = None \<rparr>]"
  "activeCharacter (handleTimeSkip_done c d u img env st) =
     c\<lparr> c_weight := newWeight u, c_height := newHeight u, c_age := newAge u,
        c_baseImage := img \<rparr>"
  "showNewUserForm (handleTimeSkip_done c d u img env st)"
  by (simp_all add: handleTimeSkip_done_def chat_defs)

text \<open>A time skip whose call resolves to \<open>null\<close> ends as a failed one does.\<close>

lemma skip_null_state:
  assumes "timeSkipDuration st \<noteq> []"
    and "processTimeSkip (activeCharacter st) (timeSkipDuration st) (skipParse env) (skipResponse env)
           = Inr None"
  shows "messages (handleTimeSkip env st) = filter (\<lambda>m. m_id m \<noteq> skipCalcId) (messages st)"
    and "activeCharacter (handleTimeSkip env st) = activeCharacter st"
    and "alerts (handleTimeSkip env st) = alerts st @ [ascii ''Erro ao processar salto no tempo.'']"
    and "showNewUserForm (handleTimeSkip env st) = showNewUserForm st"
  using assms by (simp_all add: skip_defs chat_defs skipCalcId_def)





lemma awaitingChat_eval:
  "showNewUserForm awaitingChat" "isDead awaitingChat" "pending awaitingChat = []"
  "activeUserPersona awaitingChat = Some exampleUser"
  "activeCharacter awaitingChat = exampleCharacter
     \<lparr> c_weight := Some (ascii ''300kg''), c_height := Some (ascii ''3m''),
       c_age := Some (ascii ''310'') \<rparr>"
  "map m_id (messages awaitingChat) = [ascii ''init'', toString 2000, toString 2501, toString 5000]"
  "map m_isDeath (messages awaitingChat) = [None, None, Some True, None]"
  "\<not> lastIsDeath (messages awaitingChat)"
  using toString_not_skipCalc [unfolded skipCalcId_def ascii_def, simplified]
  by (simp_all add: awaitingChat_def skipReadyChat_eval suspend.simps skipOkEnv_def
      exampleUpdates_def skip_defs chat_defs processTimeSkip_def textResponse_def
      seedMessage_def skipCalcId_def ascii_def lastIsDeath_def exampleCharacter_def)

subsection \<open>New persona\<close>

text \<open>
  C5. Submitting a new persona while the session awaits one appends exactly one entrance
  message, which carries no death flag, makes the submitted persona the session's persona,
  and the derived state becomes \<open>ALIVE\<close>.
\<close>

theorem new_persona_revives:
  assumes "derivedState st = AWAITING_NEW_PERSONA"
  shows "messages (handleNewUserCreated nowId nowTimestamp newUser st) =
           messages st
           @ [\<lparr> m_id = toString nowId, m_role = user, m_text = entranceText newUser,
                 m_timestamp = nowTimestamp, m_isDeath = None, m_generatedImage = None \<rparr>]
    \<and> \<not> lastIsDeath (messages (handleNewUserCreated nowId nowTimestamp newUser st))
    \<and> activeUserPersona (handleNewUserCreated nowId nowTimestamp newUser st) = Some newUser
    \<and> derivedState (handleNewUserCreated nowId nowTimestamp newUser st) = ALIVE
    \<and> (handleSubmit f = Some newUser \<longrightarrow>
         dispatch (SubmitNewUser nowId nowTimestamp f) st
           = handleNewUserCreated nowId nowTimestamp newUser st)"
proof -
  have form: "showNewUserForm st"
    using assms by (auto simp: derivedState_def split: if_splits)
  have l: "lastIsDeath (xs @ [\<lparr> m_id = toString nowId, m_role = user, m_text = entranceText newUser,
                 m_timestamp = nowTimestamp, m_isDeath = None, m_generatedImage = None \<rparr>]) = False"
    for xs by (cases xs) (simp_all add: lastIsDeath_def)
  show ?thesis
    using form by (simp add: handleNewUserCreated_def chat_defs derivedState_def l)
qed

theorem new_persona_revives_witness:
  "derivedState awaitingChat = AWAITING_NEW_PERSONA
   \<and> handleSubmit exampleUserForm = Some exampleNewUser
   \<and> length (messages (dispatch (SubmitNewUser 6000 6000 exampleUserForm) awaitingChat))
       = length (messages awaitingChat) + 1
   \<and> activeUserPersona (dispatch (SubmitNewUser 6000 6000 exampleUserForm) awaitingChat)
       = Some exampleNewUser
   \<and> derivedState (dispatch (SubmitNewUser 6000 6000 exampleUserForm) awaitingChat) = ALIVE"
proof -
  have st: "derivedState awaitingChat = AWAITING_NEW_PERSONA"
    by (simp add: derivedState_def awaitingChat_eval)
  have h: "handleSubmit exampleUserForm = Some exampleNewUser"
    by (simp add: handleSubmit_def exampleUserForm_def exampleNewUser_def ascii_def)
  note T = new_persona_revives [OF st, of 6000 6000 exampleNewUser exampleUserForm]
  have e: "dispatch (SubmitNewUser 6000 6000 exampleUserForm) awaitingChat
             = handleNewUserCreated 6000 6000 exampleNewUser awaitingChat"
    using T h by blast
  have m: "length (messages (handleNewUserCreated 6000 6000 exampleNewUser awaitingChat))
             = length (messages awaitingChat) + 1"
    using T by simp
  show ?thesis unfolding e using st h m T by blast
qed

subsection \<open>Image evolution\<close>

text \<open>
  C10. When the image-evolution response carries no inline image data,
  \<open>evolveCharacterVisuals\<close> returns the base image it was given and raises nothing,
  where \<open>editCharacterImage\<close> raises on the same response; a time skip whose image call
  answers so keeps the character's prior image.
\<close>

theorem evolve_without_image_keeps_base:
  assumes "firstInlineData (responseParts r) = None"
  shows "evolveCharacterVisuals base64Image evolutionDescription (Inr r) = Inr base64Image
    \<and> editCharacterImage base64Image prompt (Inr r) = Inl (Error (ascii ''Nenhuma imagem gerada.''))
    \<and> (timeSkipDuration st \<noteq> [] \<and> imageResponse env = Inr r
         \<and> processTimeSkip (activeCharacter st) (timeSkipDuration st) (skipParse env)
              (skipResponse env) = Inr (Some updates)
        \<longrightarrow> c_baseImage (activeCharacter (handleTimeSkip env st)) = c_baseImage (activeCharacter st)
            \<and> alerts (handleTimeSkip env st) = alerts st
            \<and> derivedState (handleTimeSkip env st) = AWAITING_NEW_PERSONA)"
proof -
  have ev: "evolveCharacterVisuals b d (Inr r) = Inr b" for b d
    using assms by (simp add: evolveCharacterVisuals_def)
  have ed: "editCharacterImage base64Image prompt (Inr r)
              = Inl (Error (ascii ''Nenhuma imagem gerada.''))"
    using assms by (simp add: editCharacterImage_def)
  have sk: "c_baseImage (activeCharacter (handleTimeSkip env st)) = c_baseImage (activeCharacter st)
            \<and> alerts (handleTimeSkip env st) = alerts st
            \<and> derivedState (handleTimeSkip env st) = AWAITING_NEW_PERSONA"
    if d: "timeSkipDuration st \<noteq> []" and i: "imageResponse env = Inr r"
      and p: "processTimeSkip (activeCharacter st) (timeSkipDuration st) (skipParse env)
                (skipResponse env) = Inr (Some updates)"
  proof -
    have "c_baseImage (activeCharacter (handleTimeSkip env st)) = c_baseImage (activeCharacter st)"
      unfolding skip_success_character [OF d p] by (simp add: i ev)
    moreover have "derivedState (handleTimeSkip env st) = AWAITING_NEW_PERSONA"
      using skip_success_flags(1) [OF d p] by (simp add: derivedState_def)
    ultimately show ?thesis using skip_success_flags(2) [OF d p] by blast
  qed
  show ?thesis using ev ed sk by blast
qed

theorem evolve_without_image_keeps_base_witness:
  "firstInlineData (responseParts noImageResponse) = None
   \<and> evolveCharacterVisuals (ascii ''img0'') (ascii ''older'') (Inr noImageResponse) = Inr (ascii ''img0'')
   \<and> editCharacterImage (ascii ''img0'') (ascii ''older'') (Inr noImageResponse)
       = Inl (Error (ascii ''Nenhuma imagem gerada.''))
   \<and> timeSkipDuration skipReadyChat \<noteq> []
   \<and> imageResponse skipNoImageEnv = Inr noImageResponse
   \<and> c_baseImage (activeCharacter (handleTimeSkip skipNoImageEnv skipReadyChat)) = ascii ''img0''"
proof -
  let ?u = "exampleUpdates\<lparr>visualEvolutionPrompt := Some (ascii ''older'')\<rparr>"
  have n: "firstInlineData (responseParts noImageResponse) = None"
    by (simp add: noImageResponse_def responseParts_def)
  have d: "timeSkipDuration skipReadyChat \<noteq> []"
    by (simp add: skipReadyChat_eval ascii_def)
  have i: "imageResponse skipNoImageEnv = Inr noImageResponse"
    by (simp add: skipNoImageEnv_def)
  have p: "processTimeSkip (activeCharacter skipReadyChat) (timeSkipDuration skipReadyChat)
             (skipParse skipNoImageEnv) (skipResponse skipNoImageEnv) = Inr (Some ?u)"
    by (simp add: processTimeSkip_def skipNoImageEnv_def skipOkEnv_def textResponse_def)
  note T = evolve_without_image_keeps_base [OF n, of "ascii ''img0''" "ascii ''older''"
      "ascii ''older''" skipReadyChat skipNoImageEnv ?u]
  have b: "c_baseImage (activeCharacter (handleTimeSkip skipNoImageEnv skipReadyChat)) = ascii ''img0''"
    using T d i p by (simp add: skipReadyChat_eval(2) exampleCharacter_def)
  show ?thesis using n d i b T by blast
qed

subsection \<open>Death tag, the death lock, message ids, diet\<close>

text \<open>
  C1, at a reply that carries the death tag twice: the appended message has the death
  flag, the derived state is \<open>DEAD\<close> and no speech is requested, but \<^verbatim>\<open>replace\<close> removed
  the first tag only and the displayed text still contains the tag.
\<close>

theorem double_death_tag_survives:
  "m_isDeath (last (messages doubleTagChat)) = Some True
   \<and> derivedState doubleTagChat = DEAD
   \<and> speakRequests doubleTagChat = []
   \<and> m_text (last (messages doubleTagChat)) = ascii ''Fim.  [GAME_OVER]''
   \<and> includes_str (m_text (last (messages doubleTagChat))) deathTag"
  by (simp add: doubleTagChat_def freshChat_def eval_defs seedMessage_def)

lemma racingChat_eval:
  "isProcessing typedWhilePendingChat" "inputText typedWhilePendingChat = ascii ''oi''"
  "\<not> isDead typedWhilePendingChat"
  "pending racingChat = [AwaitChat True, AwaitChat True]"
  by (simp_all add: racingChat_def typedWhilePendingChat_def freshChat_def eval_defs seedMessage_def)

lemma raceDeadChat_eval:
  "isDead raceDeadChat" "\<not> showNewUserForm raceDeadChat" "\<not> isSkippingTime raceDeadChat"
  "speakRequests raceDeadChat = []" "pending raceDeadChat = [AwaitChat True]"
  "audioContextRef raceDeadChat"
  "messages raceDeadChat = [seedMessage,
      \<lparr> m_id = toString 2000, m_role = user, m_text = ascii ''oi'', m_timestamp = 2000,
         m_isDeath = None, m_generatedImage = None \<rparr>,
      \<lparr> m_id = toString 2100, m_role = user, m_text = ascii ''oi'', m_timestamp = 2100,
         m_isDeath = None, m_generatedImage = None \<rparr>,
      \<lparr> m_id = toString 2501, m_role = model, m_text = ascii ''Fim.'', m_timestamp = 2500,
         m_isDeath = Some True, m_generatedImage = None \<rparr>]"
  by (simp_all add: raceDeadChat_def racingChat_def typedWhilePendingChat_def freshChat_def
      eval_defs seedMessage_def)

lemma raceAfterChat_eval:
  "isDead raceAfterChat" "\<not> showNewUserForm raceAfterChat" "\<not> isSkippingTime raceAfterChat"
  "speakRequests raceAfterChat = [ascii ''Oi'']"
  "messages raceAfterChat = messages raceDeadChat
      @ [\<lparr> m_id = toString 2601, m_role = model, m_text = ascii ''Oi'', m_timestamp = 2600,
            m_isDeath = Some False, m_generatedImage = None \<rparr>]"
  by (simp_all add: raceAfterChat_def raceDeadChat_eval eval_defs)

lemma reopenedChat_eval:
  "\<not> isDead reopenedChat" "\<not> showNewUserForm reopenedChat" "inputText reopenedChat = []"
  "activeUserPersona reopenedChat = Some exampleUser"
  by (simp_all add: reopenedChat_def mountChatArea_def sessionEffect_def Let_def
      awaitingChat_eval(4,8))

text \<open>
  C4, at two turns in flight. The send button is disabled while a turn is processing,
  but the Enter key is not held back, so a second turn starts before the first reply.
  The first reply ends in the death tag and the session is \<open>DEAD\<close>; then the second
  reply arrives, and its \<open>model\<close> message is appended to the log and handed to speech
  while the session is \<open>DEAD\<close>. And the session that awaits a new persona after a time
  skip, once opened again, is \<open>ALIVE\<close> with the persona that died.
\<close>

theorem reply_appended_while_dead:
  "dispatch (ClickSend (replyEnv 2100 (textResponse (ascii ''Oi'')))) typedWhilePendingChat
     = typedWhilePendingChat
   \<and> pending racingChat = [AwaitChat True, AwaitChat True]
   \<and> reachable raceDeadChat
   \<and> derivedState raceDeadChat = DEAD
   \<and> lastIsDeath (messages raceDeadChat)
   \<and> speakRequests raceDeadChat = []
   \<and> reachable raceAfterChat
   \<and> messages raceAfterChat = messages raceDeadChat
        @ [\<lparr> m_id = toString 2601, m_role = model, m_text = ascii ''Oi'', m_timestamp = 2600,
              m_isDeath = Some False, m_generatedImage = None \<rparr>]
   \<and> map m_id (messages raceAfterChat)
        = [ascii ''init'', toString 2000, toString 2100, toString 2501, toString 2601]
   \<and> speakRequests raceAfterChat = [ascii ''Oi'']
   \<and> derivedState raceAfterChat = DEAD
   \<and> derivedState awaitingChat = AWAITING_NEW_PERSONA
   \<and> reachable reopenedChat
   \<and> derivedState reopenedChat = ALIVE
   \<and> activeUserPersona reopenedChat = Some exampleUser"
proof -
  have b: "dispatch (ClickSend (replyEnv 2100 (textResponse (ascii ''Oi'')))) typedWhilePendingChat
     = typedWhilePendingChat"
    by (simp add: racingChat_eval(1))
  have r1: "reachable raceDeadChat"
    unfolding raceDeadChat_def racingChat_def typedWhilePendingChat_def freshChat_def
    by (intro reachable.intros)
  have r2: "reachable raceAfterChat"
    unfolding raceAfterChat_def by (intro reachable.step r1)
  have r3: "reachable reopenedChat"
    unfolding reopenedChat_def by (rule reachable.mounted)
  have d1: "derivedState raceDeadChat = DEAD"
    by (simp add: derivedState_def raceDeadChat_eval)
  have l: "lastIsDeath (messages raceDeadChat)"
    by (simp add: raceDeadChat_eval(7) lastIsDeath_def)
  have d2: "derivedState raceAfterChat = DEAD"
    by (simp add: derivedState_def raceAfterChat_eval)
  have ids: "map m_id (messages raceAfterChat)
        = [ascii ''init'', toString 2000, toString 2100, toString 2501, toString 2601]"
    by (simp add: raceAfterChat_eval(5) raceDeadChat_eval(7) seedMessage_def)
  have a: "derivedState awaitingChat = AWAITING_NEW_PERSONA"
    by (simp add: derivedState_def awaitingChat_eval)
  have d3: "derivedState reopenedChat = ALIVE"
    by (simp add: derivedState_def reopenedChat_eval)
  show ?thesis
    using b racingChat_eval(4) r1 d1 l raceDeadChat_eval(4) r2 raceAfterChat_eval(5) ids
      raceAfterChat_eval(4) d2 a r3 d3 reopenedChat_eval(4)
    by blast
qed

text \<open>
  C7, at two chat turns whose collaborator call fails: both fallback messages get the
  fixed id \<open>err\<close>, so the log of a reachable session holds the same id twice.
\<close>

theorem error_messages_share_id:
  "reachable twoFailuresChat
   \<and> map m_id (messages twoFailuresChat)
       = [ascii ''init'', toString 2000, ascii ''err'', toString 3000, ascii ''err'']
   \<and> \<not> distinct (map m_id (messages twoFailuresChat))"
proof -
  have r: "reachable twoFailuresChat"
    unfolding twoFailuresChat_def turn_def freshChat_def by (intro reachable.intros)
  have m: "map m_id (messages twoFailuresChat)
       = [ascii ''init'', toString 2000, ascii ''err'', toString 3000, ascii ''err'']"
    by (simp add: twoFailuresChat_def freshChat_def eval_defs seedMessage_def)
  have "\<not> distinct (map m_id (messages twoFailuresChat))"
    unfolding m by simp
  with r m show ?thesis by blast
qed

text \<open>
  C8, at a form where the diet was set to carnivore, human-eating was checked, and the
  diet was set back to herbivore: the confirmed character is a herbivore whose diet
  still carries human preferences.
\<close>

theorem herbivore_keeps_human_preferences:
  "(case handleComplete 7000 herbivoreAfterCarnivore of
      Inl a \<Rightarrow> None
    | Inr c \<Rightarrow> c_diet c)
   = Some \<lparr> d_type = HERBIVORE, d_details = [], d_eatsHumans = True,
            d_humanPreferences =
              Some \<lparr> ageGroup = anyone, bodyType = anyone, tastePreference = anyone \<rparr> \<rparr>"
  by (simp add: handleComplete_def herbivoreAfterCarnivore_def mountCharacterSetup_def ascii_def)

subsection \<open>Persistence of the collection\<close>

lemma emptiedApp_eval:
  "sessions emptiedApp = []"
  "localStorage emptiedApp = Map.empty(storageKey \<mapsto> idsOf [exampleSession])"
  by (simp_all add: emptiedApp_def appDispatch_def appRender_def saveEffect_def
      handleDeleteSession_def setSessions_def exampleApp_def exampleSession_def ascii_def)

text \<open>
  C9, at a collection of one session that is deleted, and at a stored blob that is the
  document \<open>null\<close>. After the deletion the collection is empty, but nothing was written:
  storage still holds the document that lists the deleted session, and the next startup
  brings the session back. At the blob \<open>null\<close>, which parses, the value is taken for the
  collection and the render throws.
\<close>

theorem delete_last_not_persisted:
  "sessions exampleApp = [exampleSession]
   \<and> sessions emptiedApp = []
   \<and> localStorage emptiedApp storageKey = Some (idsOf [exampleSession])
   \<and> idsOf [exampleSession] \<noteq> idsOf []
   \<and> map_sum id sessions (mountApp idsOf readIds (localStorage emptiedApp)) = Inr [exampleSession]
   \<and> mountApp idsOf readIds (Map.empty(storageKey \<mapsto> ascii ''null'')) = Inl TypeError"
proof -
  have s: "sessions exampleApp = [exampleSession]"
    by (simp add: exampleApp_def)
  have n: "idsOf [exampleSession] \<noteq> []" "idsOf [exampleSession] \<noteq> idsOf []"
    "ascii ''null'' \<noteq> idsOf [exampleSession]" "ascii ''null'' \<noteq> []"
    by (simp_all add: idsOf_def exampleSession_def ascii_def)
  have k: "localStorage emptiedApp storageKey = Some (idsOf [exampleSession])"
    by (simp add: emptiedApp_eval)
  have b: "map_sum id sessions (mountApp idsOf readIds (localStorage emptiedApp))
             = Inr [exampleSession]"
    by (simp add: mountApp_def loadEffect_def saveEffect_def appRender_def setSessions_def
        emptiedApp_eval(2) readIds_def n)
  have c: "mountApp idsOf readIds (Map.empty(storageKey \<mapsto> ascii ''null'')) = Inl TypeError"
    by (simp add: mountApp_def loadEffect_def saveEffect_def readIds_def n)
  show ?thesis using s emptiedApp_eval(1) k n(2) b c by blast
qed

subsection \<open>Malformed structured responses\<close>

lemma skip_fallback:
  assumes "skipResponse env = Inr r" and "skipParse env (orElse (r_text r) (ascii ''{}'')) = Malformed"
  shows "processTimeSkip c duration (skipParse env) (skipResponse env) =
           Inr (Some
             \<lparr> newWeight = Some (orElse (c_weight c) (ascii ''?'')),
               newHeight = Some (orElse (c_height c) (ascii ''?'')),
               newAge = Some (orElse (c_age c) (ascii ''?'')),
               stats = Some (ascii ''Sobreviveu.''),
               summary = Some (ascii ''Passaram-se '' @ duration
                 @ ascii ''. O personagem continuou sua exist'' @ [0x00EA] @ ascii ''ncia.''),
               visualEvolutionPrompt = Some (ascii ''older, different appearance'') \<rparr>)"
  using assms by (simp add: processTimeSkip_def)

text \<open>
  C6, at a time skip whose collaborator answers with a document that does not parse: no
  failure is shown, a message is appended to the log, and the derived state leaves \<open>DEAD\<close>
  for \<open>AWAITING_NEW_PERSONA\<close>.
\<close>

theorem malformed_time_skip_applied:
  "skipParse skipMalformedEnv (ascii ''{bad'') = Malformed
   \<and> skipResponse skipMalformedEnv = textResponse (ascii ''{bad'')
   \<and> alerts (handleTimeSkip skipMalformedEnv skipReadyChat) = alerts skipReadyChat
   \<and> length (messages (handleTimeSkip skipMalformedEnv skipReadyChat))
       = length (messages skipReadyChat) + 1
   \<and> derivedState skipReadyChat = DEAD
   \<and> derivedState (handleTimeSkip skipMalformedEnv skipReadyChat) = AWAITING_NEW_PERSONA"
proof -
  let ?s = "handleTimeSkip skipMalformedEnv skipReadyChat"
  have e: "skipParse skipMalformedEnv (ascii ''{bad'') = Malformed"
    "skipResponse skipMalformedEnv = textResponse (ascii ''{bad'')"
    by (simp_all add: skipMalformedEnv_def)
  have d: "timeSkipDuration skipReadyChat \<noteq> []"
    by (simp add: skipReadyChat_eval ascii_def)
  have r: "skipResponse skipMalformedEnv = Inr \<lparr> r_text = Some (ascii ''{bad''), r_candidates = None \<rparr>"
    by (simp add: skipMalformedEnv_def textResponse_def)
  have n: "skipParse skipMalformedEnv
             (orElse (r_text \<lparr> r_text = Some (ascii ''{bad''), r_candidates = None \<rparr>) (ascii ''{}''))
           = Malformed"
    by (simp add: skipMalformedEnv_def)
  note p = skip_fallback [OF r n, of "activeCharacter skipReadyChat" "timeSkipDuration skipReadyChat"]
  have a: "alerts ?s = alerts skipReadyChat"
    by (rule skip_success_flags(2) [OF d p])
  have i: "m_id seedMessage \<noteq> skipCalcId"
    by (simp add: seedMessage_def skipCalcId_def ascii_def)
  have l: "length (messages ?s) = length (messages skipReadyChat) + 1"
    unfolding skip_success_messages [OF d p]
    by (simp add: skipReadyChat_eval(8) i toString_not_skipCalc)
  have b: "derivedState skipReadyChat = DEAD"
    by (simp add: derivedState_def skipReadyChat_eval)
  have f: "derivedState ?s = AWAITING_NEW_PERSONA"
    using skip_success_flags(1) [OF d p] by (simp add: derivedState_def)
  show ?thesis using e a l b f by blast
qed

text \<open>
  C6, amended. A profile document that does not parse makes the autofill fail: the form
  shows the generic failure alert and keeps every field as it was. A time-skip document
  that does not parse is not a failure: \<open>processTimeSkip\<close> answers with a stock result
  built from the character's current weight, height and age (\<open>?\<close> where one is missing),
  and the time skip completes with it, without an alert, with its consolidated message
  appended and the derived state \<open>AWAITING_NEW_PERSONA\<close>.
\<close>

theorem malformed_json_handling:
  "(f_storyTone fs \<noteq> [] \<and> profileResponse penv = Inr r
      \<and> profileParse penv (orElse (r_text r) (ascii ''{}'')) = None
    \<longrightarrow> handleAutoFill penv fs =
          fs\<lparr> f_alerts := f_alerts fs
                  @ [ascii ''Falha ao gerar perfil autom'' @ [0x00E1]
                     @ ascii ''tico. Verifique sua cota da API ou tente novamente.''],
              isAutoFilling := False \<rparr>)
   \<and> (timeSkipDuration st \<noteq> [] \<and> skipResponse env = Inr r'
        \<and> skipParse env (orElse (r_text r') (ascii ''{}'')) = Malformed
      \<longrightarrow> alerts (handleTimeSkip env st) = alerts st
          \<and> c_weight (activeCharacter (handleTimeSkip env st))
              = Some (orElse (c_weight (activeCharacter st)) (ascii ''?''))
          \<and> c_height (activeCharacter (handleTimeSkip env st))
              = Some (orElse (c_height (activeCharacter st)) (ascii ''?''))
          \<and> c_age (activeCharacter (handleTimeSkip env st))
              = Some (orElse (c_age (activeCharacter st)) (ascii ''?''))
          \<and> length (messages (handleTimeSkip env st))
              = length (filter (\<lambda>m. m_id m \<noteq> skipCalcId) (messages st)) + 1
          \<and> m_text (last (messages (handleTimeSkip env st)))
              = skipText (timeSkipDuration st)
                  \<lparr> newWeight = Some (orElse (c_weight (activeCharacter st)) (ascii ''?'')),
                    newHeight = Some (orElse (c_height (activeCharacter st)) (ascii ''?'')),
                    newAge = Some (orElse (c_age (activeCharacter st)) (ascii ''?'')),
                    stats = Some (ascii ''Sobreviveu.''),
                    summary = Some (ascii ''Passaram-se '' @ timeSkipDuration st
                      @ ascii ''. O personagem continuou sua exist'' @ [0x00EA] @ ascii ''ncia.''),
                    visualEvolutionPrompt = Some (ascii ''older, different appearance'') \<rparr>
          \<and> derivedState (handleTimeSkip env st) = AWAITING_NEW_PERSONA)"
proof -
  have prof: "handleAutoFill penv fs =
          fs\<lparr> f_alerts := f_alerts fs
                  @ [ascii ''Falha ao gerar perfil autom'' @ [0x00E1]
                     @ ascii ''tico. Verifique sua cota da API ou tente novamente.''],
              isAutoFilling := False \<rparr>"
    if "f_storyTone fs \<noteq> []" and "profileResponse penv = Inr r"
      and "profileParse penv (orElse (r_text r) (ascii ''{}'')) = None"
    using that by (simp add: handleAutoFill_def autoFillCharacterProfile_def)
  have skip: "alerts (handleTimeSkip env st) = alerts st
          \<and> c_weight (activeCharacter (handleTimeSkip env st))
              = Some (orElse (c_weight (activeCharacter st)) (ascii ''?''))
          \<and> c_height (activeCharacter (handleTimeSkip env st))
              = Some (orElse (c_height (activeCharacter st)) (ascii ''?''))
          \<and> c_age (activeCharacter (handleTimeSkip env st))
              = Some (orElse (c_age (activeCharacter st)) (ascii ''?''))
          \<and> length (messages (handleTimeSkip env st))
              = length (filter (\<lambda>m. m_id m \<noteq> skipCalcId) (messages st)) + 1
          \<and> m_text (last (messages (handleTimeSkip env st)))
              = skipText (timeSkipDuration st)
                  \<lparr> newWeight = Some (orElse (c_weight (activeCharacter st)) (ascii ''?'')),
                    newHeight = Some (orElse (c_height (activeCharacter st)) (ascii ''?'')),
                    newAge = Some (orElse (c_age (activeCharacter st)) (ascii ''?'')),
                    stats = Some (ascii ''Sobreviveu.''),
                    summary = Some (ascii ''Passaram-se '' @ timeSkipDuration st
                      @ ascii ''. O personagem continuou sua exist'' @ [0x00EA] @ ascii ''ncia.''),
                    visualEvolutionPrompt = Some (ascii ''older, different appearance'') \<rparr>
          \<and> derivedState (handleTimeSkip env st) = AWAITING_NEW_PERSONA"
    if d: "timeSkipDuration st \<noteq> []" and r: "skipResponse env = Inr r'"
      and n: "skipParse env (orElse (r_text r') (ascii ''{}'')) = Malformed"
  proof -
    note p = skip_fallback [OF r n, of "activeCharacter st" "timeSkipDuration st"]
    have "derivedState (handleTimeSkip env st) = AWAITING_NEW_PERSONA"
      using skip_success_flags(1) [OF d p] by (simp add: derivedState_def)
    then show ?thesis
      by (simp add: skip_success_flags(2) [OF d p] skip_success_character [OF d p]
          skip_success_messages [OF d p])
  qed
  show ?thesis using prof skip by blast
qed

theorem malformed_json_handling_witness:
  "f_storyTone herbivoreAfterCarnivore \<noteq> []
   \<and> profileResponse malformedProfileEnv = textResponse (ascii ''{bad'')
   \<and> profileParse malformedProfileEnv (ascii ''{bad'') = None
   \<and> f_name (handleAutoFill malformedProfileEnv herbivoreAfterCarnivore) = ascii ''Ogro''
   \<and> length (f_alerts (handleAutoFill malformedProfileEnv herbivoreAfterCarnivore)) = 1
   \<and> timeSkipDuration skipReadyChat \<noteq> []
   \<and> skipParse skipMalformedEnv (ascii ''{bad'') = Malformed
   \<and> alerts (handleTimeSkip skipMalformedEnv skipReadyChat) = []
   \<and> c_weight (activeCharacter (handleTimeSkip skipMalformedEnv skipReadyChat)) = Some (ascii ''400kg'')
   \<and> derivedState (handleTimeSkip skipMalformedEnv skipReadyChat) = AWAITING_NEW_PERSONA"
proof -
  let ?r = "\<lparr> r_text = Some (ascii ''{bad''), r_candidates = None \<rparr>"
  have o: "orElse (r_text ?r) (ascii ''{}'') = ascii ''{bad''" by (simp add: ascii_def)
  have f: "f_storyTone herbivoreAfterCarnivore \<noteq> []"
    "f_name herbivoreAfterCarnivore = ascii ''Ogro''" "f_alerts herbivoreAfterCarnivore = []"
    by (simp_all add: herbivoreAfterCarnivore_def mountCharacterSetup_def ascii_def)
  have pr: "profileResponse malformedProfileEnv = Inr ?r"
    "profileParse malformedProfileEnv (ascii ''{bad'') = None"
    by (simp_all add: malformedProfileEnv_def textResponse_def)
  have d: "timeSkipDuration skipReadyChat \<noteq> []"
    by (simp add: skipReadyChat_eval ascii_def)
  have sr: "skipResponse skipMalformedEnv = Inr ?r"
    "skipParse skipMalformedEnv (ascii ''{bad'') = Malformed"
    by (simp_all add: skipMalformedEnv_def textResponse_def)
  note T = malformed_json_handling [of herbivoreAfterCarnivore malformedProfileEnv ?r
      skipReadyChat skipMalformedEnv ?r, unfolded o]
  have h: "handleAutoFill malformedProfileEnv herbivoreAfterCarnivore =
          herbivoreAfterCarnivore\<lparr> f_alerts := f_alerts herbivoreAfterCarnivore
                  @ [ascii ''Falha ao gerar perfil autom'' @ [0x00E1]
                     @ ascii ''tico. Verifique sua cota da API ou tente novamente.''],
              isAutoFilling := False \<rparr>"
    using T f(1) pr by blast
  have n: "f_name (handleAutoFill malformedProfileEnv herbivoreAfterCarnivore) = ascii ''Ogro''"
    unfolding h by (simp add: f(2))
  have a: "length (f_alerts (handleAutoFill malformedProfileEnv herbivoreAfterCarnivore)) = 1"
    unfolding h by (simp add: f(3))
  have s: "alerts (handleTimeSkip skipMalformedEnv skipReadyChat) = alerts skipReadyChat
      \<and> c_weight (activeCharacter (handleTimeSkip skipMalformedEnv skipReadyChat))
          = Some (orElse (c_weight (activeCharacter skipReadyChat)) (ascii ''?''))
      \<and> derivedState (handleTimeSkip skipMalformedEnv skipReadyChat) = AWAITING_NEW_PERSONA"
    using T d sr by blast
  have al: "alerts (handleTimeSkip skipMalformedEnv skipReadyChat) = []"
    using s by (simp add: skipReadyChat_eval(7))
  have w: "c_weight (activeCharacter (handleTimeSkip skipMalformedEnv skipReadyChat)) = Some (ascii ''400kg'')"
    using s by (simp add: skipReadyChat_eval(2) exampleCharacter_def ascii_def)
  show ?thesis using f(1) pr n a d sr(2) al w s by (simp add: textResponse_def)
qed

end
